theory Spec2Isabelle
  imports Main "HOL-Library.Word"
begin

unbundle bit_operations_syntax

section \<open>Data model of drivers/power/max77665-charger.c\<close>

text \<open>
  The driver is embedded shallowly: every C function becomes a HOL function that takes
  the state and returns the return code together with the new state. The state holds
  the fields of \<^verbatim>\<open>struct max77665_charger\<close> the driver logic touches, the state of
  the chip behind the register transport, and the list of externally visible actions
  in program order (stores to the shared struct, bus transfers, calls of kernel
  services and platform callbacks). Diagnostic printing and the mutex are left out:
  the model is the sequential behaviour of one task.
\<close>

type_synonym u8 = "8 word"
type_synonym u32 = "32 word"

text \<open>\<^verbatim>\<open>enum max77665_mode\<close>: the driver uses exactly these three values.\<close>

datatype max77665_mode = OFF | CHARGER | OTG

text \<open>The registers the driver addresses, by the names of their macros.\<close>

datatype reg =
    MAX77665_CHG_INT | MAX77665_CHG_INT_MASK | MAX77665_CHG_INT_OK
  | MAX77665_CHG_DTLS_00 | MAX77665_CHG_DTLS_01 | MAX77665_CHG_DTLS_02
  | MAX77665_CHG_CNFG_00 | MAX77665_CHG_CNFG_06 | MAX77665_CHG_CNFG_09
  | MAX77665_CHG_CNFG_12 | MAX77665_SAFEOUTCTRL

datatype work_item = Wdt_ack_work | Set_max_current_work

datatype psy = Ac_psy | Usb_psy

datatype power_supply_property =
    POWER_SUPPLY_PROP_ONLINE | POWER_SUPPLY_PROP_CURRENT_MAX | POWER_SUPPLY_PROP_OTHER

datatype event =
    Store_mode max77665_mode
  | Store_max_current_mA int
  | Store_ac_online u8
  | Store_usb_online u8
  | Store_oc_count u32
  | Bus_read reg int u8
  | Bus_write reg u8 int
  | Msleep nat
  | Schedule_delayed_work work_item nat
  | Cancel_delayed_work_sync work_item
  | Alarm_start int
  | Alarm_cancel
  | Update_status int
  | Power_supply_changed psy

text \<open>
  \<^verbatim>\<open>struct max77665_charger\<close> (the fields the logic reads or writes), with the chip
  state \<open>hw\<close> and the action list \<open>events\<close>. A delayed work is \<open>Some d\<close> while it is
  pending with delay \<open>d\<close> (in ms), the alarm is \<open>Some s\<close> while armed to fire in \<open>s\<close>
  seconds.
\<close>

record 'd charger =
  mode :: max77665_mode
  max_current_mA :: int
  ac_online :: u8
  usb_online :: u8
  oc_count :: u32
  wdt_alarm :: "int option"
  wdt_ack_work :: "nat option"
  set_max_current_work :: "nat option"
  hw :: 'd
  events :: "event list"

text \<open>
  What the driver takes from outside this file: the macros of
  \<^verbatim>\<open>linux/max77665-charger.h\<close> (not part of the sources at hand, so they are
  parameters), the register transport \<^verbatim>\<open>max77665_read\<close>/\<^verbatim>\<open>max77665_write\<close> of the
  MFD core acting on the chip state, and whether the platform data supplies the
  \<^verbatim>\<open>update_status\<close> callback.
\<close>

record 'd env =
  CURRENT_STEP_mA :: int
  MIN_CURRENT_LIMIT_mA :: int
  MAX77665_WATCHDOG_TIMER_PERIOD_S :: int
  BYP_BIT :: u32
  DETBAT_BIT :: u32
  BAT_BIT :: u32
  CHG_BIT :: u32
  CHGIN_BIT :: u32
  CHGIN_DTLS_MASK :: "u32 \<Rightarrow> u32"
  CHGIN_DTLS_VALID :: u32
  BYP_DTLS_MASK :: "u32 \<Rightarrow> u32"
  BYP_DTLS_VALID :: u32
  BAT_DTLS_MASK :: "u32 \<Rightarrow> u32"
  BAT_DTLS_OVERCURRENT :: u32
  charging_is_on :: "u32 \<Rightarrow> bool"
  CHARGER_OFF_OTG_OFF_BUCK_ON_BOOST_OFF :: int
  CHARGER_ON_OTG_OFF_BUCK_ON_BOOST_OFF :: int
  CHARGER_OFF_OTG_ON_BUCK_OFF_BOOST_ON :: int
  WDTEN :: int
  VCHGIN_REGULATION_4V3 :: int
  max77665_read :: "reg \<Rightarrow> 'd \<Rightarrow> (int \<times> u8) \<times> 'd"
  max77665_write :: "reg \<Rightarrow> u8 \<Rightarrow> 'd \<Rightarrow> int \<times> 'd"
  update_status :: bool

section \<open>C arithmetic\<close>

text \<open>\<^verbatim>\<open>int\<close> is 32 bits wide; the kernel is built with wrapping signed arithmetic.\<close>

definition int32 :: "int \<Rightarrow> int" where
  "int32 x = signed_take_bit 31 x"

text \<open>C division truncates towards zero.\<close>

definition cdiv :: "int \<Rightarrow> int \<Rightarrow> int" where
  "cdiv a b = sgn a * sgn b * (\<bar>a\<bar> div \<bar>b\<bar>)"

definition EINVAL :: int where
  "EINVAL = 22"

section \<open>Kernel services\<close>

definition emit :: "event \<Rightarrow> 'd charger \<Rightarrow> 'd charger" where
  "emit e c = c\<lparr>events := events c @ [e]\<rparr>"

text \<open>Stores to the shared struct, each recorded as an action.\<close>

definition store_mode :: "max77665_mode \<Rightarrow> 'd charger \<Rightarrow> 'd charger" where
  "store_mode m c = emit (Store_mode m) (c\<lparr>mode := m\<rparr>)"

definition store_max_current_mA :: "int \<Rightarrow> 'd charger \<Rightarrow> 'd charger" where
  "store_max_current_mA v c = emit (Store_max_current_mA v) (c\<lparr>max_current_mA := v\<rparr>)"

definition store_ac_online :: "u8 \<Rightarrow> 'd charger \<Rightarrow> 'd charger" where
  "store_ac_online v c = emit (Store_ac_online v) (c\<lparr>ac_online := v\<rparr>)"

definition store_usb_online :: "u8 \<Rightarrow> 'd charger \<Rightarrow> 'd charger" where
  "store_usb_online v c = emit (Store_usb_online v) (c\<lparr>usb_online := v\<rparr>)"

definition store_oc_count :: "u32 \<Rightarrow> 'd charger \<Rightarrow> 'd charger" where
  "store_oc_count v c = emit (Store_oc_count v) (c\<lparr>oc_count := v\<rparr>)"

definition msleep :: "nat \<Rightarrow> 'd charger \<Rightarrow> 'd charger" where
  "msleep ms c = emit (Msleep ms) c"

text \<open>
  The two delayed works and the alarm are members of the struct; the kernel services
  that act on them live outside this file. \<open>work_pending\<close> and \<open>set_work\<close> select the
  member for a work item.
\<close>

definition work_pending :: "work_item \<Rightarrow> 'd charger \<Rightarrow> nat option" where
  "work_pending k c = (case k of Wdt_ack_work \<Rightarrow> wdt_ack_work c
                              | Set_max_current_work \<Rightarrow> set_max_current_work c)"

definition set_work :: "work_item \<Rightarrow> nat option \<Rightarrow> 'd charger \<Rightarrow> 'd charger" where
  "set_work k v c = (case k of Wdt_ack_work \<Rightarrow> c\<lparr>wdt_ack_work := v\<rparr>
                            | Set_max_current_work \<Rightarrow> c\<lparr>set_max_current_work := v\<rparr>)"

text \<open>
  Modelled from the spec: the kernel's \<^verbatim>\<open>schedule_delayed_work\<close> (not in this file).
  The task becomes pending, to run after the given delay; a task that is already pending
  keeps its timer.
\<close>

definition schedule_delayed_work :: "work_item \<Rightarrow> nat \<Rightarrow> 'd charger \<Rightarrow> 'd charger" where
  "schedule_delayed_work k ms c =
     emit (Schedule_delayed_work k ms)
       (case work_pending k c of None \<Rightarrow> set_work k (Some ms) c | Some d \<Rightarrow> c)"

text \<open>
  Modelled from the spec: the kernel's \<^verbatim>\<open>cancel_delayed_work_sync\<close> (not in this file).
  ``Disarming cancels any pending acknowledgment task'': afterwards the task is not
  pending.
\<close>

definition cancel_delayed_work_sync :: "work_item \<Rightarrow> 'd charger \<Rightarrow> 'd charger" where
  "cancel_delayed_work_sync k c = emit (Cancel_delayed_work_sync k) (set_work k None c)"

text \<open>
  Modelled from the spec: the kernel's \<^verbatim>\<open>alarm_start\<close> (not in this file), called with
  the boot time plus \<open>s\<close> seconds: the timer is armed to fire in \<open>s\<close> seconds.
\<close>

definition alarm_start :: "int \<Rightarrow> 'd charger \<Rightarrow> 'd charger" where
  "alarm_start s c = emit (Alarm_start s) (c\<lparr>wdt_alarm := Some s\<rparr>)"

text \<open>
  Modelled from the spec: the kernel's \<^verbatim>\<open>alarm_cancel\<close> (not in this file): the timer
  is cancelled, ``returning to Disarmed''.
\<close>

definition alarm_cancel :: "'d charger \<Rightarrow> 'd charger" where
  "alarm_cancel c = emit Alarm_cancel (c\<lparr>wdt_alarm := None\<rparr>)"

text \<open>The platform callback \<^verbatim>\<open>plat_data->update_status\<close> and \<^verbatim>\<open>power_supply_changed\<close>.\<close>

definition call_update_status :: "int \<Rightarrow> 'd charger \<Rightarrow> 'd charger" where
  "call_update_status mA c = emit (Update_status mA) c"

definition power_supply_changed :: "psy \<Rightarrow> 'd charger \<Rightarrow> 'd charger" where
  "power_supply_changed s c = emit (Power_supply_changed s) c"

section \<open>Register access\<close>

text \<open>
  \<^verbatim>\<open>max77665_write_reg\<close>: a value outside \<open>0..0xFF\<close> is refused with \<open>-EINVAL\<close> before
  the bus is touched.
\<close>

definition max77665_write_reg :: "'d env \<Rightarrow> reg \<Rightarrow> int \<Rightarrow> 'd charger \<Rightarrow> int \<times> 'd charger" where
  "max77665_write_reg p r v c =
     (if v < 0 \<or> v > 255 then (- EINVAL, c)
      else let (ret, h) = max77665_write p r (word_of_int v) (hw c)
           in (ret, emit (Bus_write r (word_of_int v) ret) (c\<lparr>hw := h\<rparr>)))"

text \<open>
  \<^verbatim>\<open>max77665_read_reg\<close>: \<open>old\<close> is what the caller's variable holds before the call;
  it is left alone when the transfer fails.
\<close>

definition max77665_read_reg :: "'d env \<Rightarrow> reg \<Rightarrow> u32 \<Rightarrow> 'd charger \<Rightarrow> int \<times> u32 \<times> 'd charger" where
  "max77665_read_reg p r old c =
     (let ((ret, rd), h) = max77665_read p r (hw c);
          c' = emit (Bus_read r ret rd) (c\<lparr>hw := h\<rparr>)
      in (ret, if 0 > ret then old else ucast rd, c'))"

section \<open>Input current ceiling\<close>

definition max77665_set_max_input_current :: "'d env \<Rightarrow> int \<Rightarrow> 'd charger \<Rightarrow> int \<times> 'd charger" where
  "max77665_set_max_input_current p mA c =
     (let (ret, c') = max77665_write_reg p MAX77665_CHG_CNFG_09 (cdiv mA (CURRENT_STEP_mA p)) c
      in (0, c'))"

text \<open>
  \<^verbatim>\<open>max77665_get_max_input_current\<close>; \<open>val0\<close> is the indeterminate initial content of
  the local \<^verbatim>\<open>val\<close>. The product is computed in \<^verbatim>\<open>uint32_t\<close> and compared as \<^verbatim>\<open>int\<close>.
\<close>

definition max77665_get_max_input_current :: "'d env \<Rightarrow> u32 \<Rightarrow> 'd charger \<Rightarrow> (int \<times> int) \<times> 'd charger" where
  "max77665_get_max_input_current p val0 c =
     (let (ret, val, c') = max77665_read_reg p MAX77665_CHG_CNFG_09 val0 c;
          val' = val AND 0x7F
      in ((ret, max (MIN_CURRENT_LIMIT_mA p) (sint (val' * word_of_int (CURRENT_STEP_mA p)))), c'))"

text \<open>
  \<^verbatim>\<open>max77665_charger_set_property\<close>: the value arrives in uA.
\<close>

definition max77665_charger_set_property ::
  "'d env \<Rightarrow> power_supply_property \<Rightarrow> int \<Rightarrow> 'd charger \<Rightarrow> int \<times> 'd charger" where
  "max77665_charger_set_property p psp intval c =
     (if psp = POWER_SUPPLY_PROP_CURRENT_MAX
      then max77665_set_max_input_current p (cdiv intval 1000) c
      else (- EINVAL, c))"

definition max77665_enable_write :: "'d env \<Rightarrow> bool \<Rightarrow> 'd charger \<Rightarrow> int \<times> 'd charger" where
  "max77665_enable_write p access c =
     (if access then max77665_write_reg p MAX77665_CHG_CNFG_06 0x0c c
      else max77665_write_reg p MAX77665_CHG_CNFG_06 0x00 c)"

section \<open>Calibration\<close>

definition max77665_check_charging_ok :: "'d env \<Rightarrow> 'd charger \<Rightarrow> bool \<times> 'd charger" where
  "max77665_check_charging_ok p c =
     (let (ret, chgin_dtls, c1) = max77665_read_reg p MAX77665_CHG_DTLS_00 0 c
      in if ret < 0 \<or> CHGIN_DTLS_MASK p chgin_dtls \<noteq> CHGIN_DTLS_VALID p then (False, c1)
         else let (ret2, byp_dtls, c2) = max77665_read_reg p MAX77665_CHG_DTLS_02 0 c1
              in if ret2 < 0 \<or> BYP_DTLS_MASK p byp_dtls \<noteq> BYP_DTLS_VALID p then (False, c2)
                 else (True, c2))"

text \<open>
  The \<^verbatim>\<open>do { ... } while (CURRENT_STEP_mA <= (max - min))\<close> loop of
  \<^verbatim>\<open>max77665_set_ideal_input_current\<close>. It leaves either through the \<^verbatim>\<open>return ret\<close>
  in its body (\<open>Inl ret\<close>) or through its condition, with the last \<^verbatim>\<open>mid\<close> (\<open>Inr mid\<close>).
  A run that never leaves the loop is \<open>None\<close>.
\<close>

partial_function (option) ideal_loop ::
  "'d env \<Rightarrow> int \<Rightarrow> int \<Rightarrow> 'd charger \<Rightarrow> ((int + int) \<times> 'd charger) option" where
  "ideal_loop p mn mx c =
     (let mid = cdiv (int32 (mn + mx)) 2 in
      case max77665_set_max_input_current p mid c of (ret, c1) \<Rightarrow>
        if ret < 0 then Some (Inl ret, c1)
        else case max77665_check_charging_ok p (msleep 50 c1) of (ok, c2) \<Rightarrow>
          let mn' = (if ok then mid else mn);
              mx' = (if ok then mx else mid)
          in if CURRENT_STEP_mA p \<le> int32 (mx' - mn') then ideal_loop p mn' mx' c2
             else Some (Inr mid, c2))"

declare ideal_loop.simps [code]

definition max77665_set_ideal_input_current :: "'d env \<Rightarrow> 'd charger \<Rightarrow> (int \<times> 'd charger) option" where
  "max77665_set_ideal_input_current p c =
     (case ideal_loop p 100 (max_current_mA c) c of
        None \<Rightarrow> None
      | Some (Inl ret, c') \<Rightarrow> Some (ret, c')
      | Some (Inr mid, c') \<Rightarrow> Some (0, store_max_current_mA mid c'))"

section \<open>Status decoding\<close>

text \<open>
  \<^verbatim>\<open>max77665_display_charger_status\<close>: apart from printing, it reads the three detail
  registers when one of the five flags is not set.
\<close>

definition max77665_display_charger_status :: "'d env \<Rightarrow> u32 \<Rightarrow> 'd charger \<Rightarrow> 'd charger" where
  "max77665_display_charger_status p status c =
     (if list_all (\<lambda>b. status AND b \<noteq> 0)
           [BYP_BIT p, DETBAT_BIT p, BAT_BIT p, CHG_BIT p, CHGIN_BIT p]
      then c
      else let (r0, v0, c0) = max77665_read_reg p MAX77665_CHG_DTLS_00 0 c;
               (r1, v1, c1) = max77665_read_reg p MAX77665_CHG_DTLS_01 0 c0;
               (r2, v2, c2) = max77665_read_reg p MAX77665_CHG_DTLS_02 0 c1
           in c2)"

text \<open>
  \<^verbatim>\<open>max77665_handle_charger_status\<close>; \<open>val0\<close> is the indeterminate initial content of
  the local \<^verbatim>\<open>val\<close>, which the comparison reads when the register read fails.
\<close>

definition max77665_handle_charger_status :: "'d env \<Rightarrow> u32 \<Rightarrow> u32 \<Rightarrow> 'd charger \<Rightarrow> int \<times> 'd charger" where
  "max77665_handle_charger_status p status val0 c =
     (let c1 = max77665_display_charger_status p status c;
          c2 = (if status AND CHG_BIT p = 0 \<or> status AND CHGIN_BIT p = 0
                then schedule_delayed_work Set_max_current_work 100 c1 else c1)
      in if status AND BAT_BIT p = 0
         then let (ret, val, c3) = max77665_read_reg p MAX77665_CHG_DTLS_01 val0 c2
              in if BAT_DTLS_MASK p val = BAT_DTLS_OVERCURRENT p
                 then (0, store_oc_count (oc_count c3 + 1) c3)
                 else (0, c3)
         else (0, c2))"

section \<open>Mode controller\<close>

text \<open>
  \<^verbatim>\<open>max77665_set_charger_mode\<close>. The local \<^verbatim>\<open>flags\<close> is an \<^verbatim>\<open>int\<close> that
  \<^verbatim>\<open>max77665_read_reg\<close> overwrites through a \<^verbatim>\<open>uint32_t\<close> pointer; after a failed read
  it still holds the mode bits.
\<close>

definition mode_flags :: "'d env \<Rightarrow> max77665_mode \<Rightarrow> int" where
  "mode_flags p m = (case m of
       OFF \<Rightarrow> CHARGER_OFF_OTG_OFF_BUCK_ON_BOOST_OFF p
     | CHARGER \<Rightarrow> CHARGER_ON_OTG_OFF_BUCK_ON_BOOST_OFF p OR WDTEN p
     | OTG \<Rightarrow> CHARGER_OFF_OTG_ON_BUCK_OFF_BOOST_ON p)"

definition max77665_set_charger_mode :: "'d env \<Rightarrow> max77665_mode \<Rightarrow> 'd charger \<Rightarrow> int \<times> 'd charger" where
  "max77665_set_charger_mode p m c =
     (let c0 = store_mode m c;
          (ret, c1) = max77665_enable_write p True c0
      in if ret < 0 then (ret, c1)
         else let flags = mode_flags p m;
                  (ret, c2) = max77665_write_reg p MAX77665_CHG_CNFG_00 flags c1
              in if ret < 0 then max77665_enable_write p False c2
                 else let (r, v, c3) = max77665_read_reg p MAX77665_CHG_CNFG_12 (word_of_int flags) c2;
                          flags' = sint v OR VCHGIN_REGULATION_4V3 p;
                          (ret, c4) = max77665_write_reg p MAX77665_CHG_CNFG_12 flags' c3
                      in if ret < 0 then max77665_enable_write p False c4
                         else let (ret, c5) = max77665_set_max_input_current p (max_current_mA c4) c4
                              in max77665_enable_write p False c5)"

section \<open>Watchdog, disable and enable paths\<close>

definition max77665_charger_disable_wdt :: "'d charger \<Rightarrow> 'd charger" where
  "max77665_charger_disable_wdt c = alarm_cancel (cancel_delayed_work_sync Wdt_ack_work c)"

text \<open>
  The extcon device is the function from a cable name to what
  \<^verbatim>\<open>extcon_get_cable_state\<close> returns for it.
\<close>

type_synonym extcon_dev = "string \<Rightarrow> int"

definition max77665_disable_charger :: "'d env \<Rightarrow> extcon_dev \<Rightarrow> 'd charger \<Rightarrow> int \<times> 'd charger" where
  "max77665_disable_charger p edev c =
     (let c1 = store_max_current_mA 0 c;
          (ret, c2) = max77665_set_charger_mode p OFF c1;
          c3 = max77665_charger_disable_wdt c2;
          c4 = (if update_status p then call_update_status 0 c3 else c3);
          c5 = store_ac_online 0 c4;
          c6 = store_usb_online 0 c5;
          c7 = power_supply_changed Usb_psy c6;
          c8 = power_supply_changed Ac_psy c7
      in (ret, c8))"

text \<open>The code after the label \<^verbatim>\<open>done:\<close> of \<^verbatim>\<open>max77665_enable_charger\<close>.\<close>

definition enable_done :: "int \<Rightarrow> 'd charger \<Rightarrow> int \<times> 'd charger" where
  "enable_done ret c =
     (let c1 = (if usb_online c \<noteq> 0 then power_supply_changed Usb_psy c else c);
          c2 = (if ac_online c1 \<noteq> 0 then power_supply_changed Ac_psy c1 else c1)
      in (ret, c2))"

text \<open>
  The \<^verbatim>\<open>if\<close>/\<^verbatim>\<open>else if\<close> chain of \<^verbatim>\<open>max77665_enable_charger\<close> over the cable names:
  the mode to set and the state after the branch's stores, or \<open>None\<close> for the final
  \<^verbatim>\<open>else\<close> (no cable connected).
\<close>

definition enable_select :: "extcon_dev \<Rightarrow> 'd charger \<Rightarrow> (max77665_mode \<times> 'd charger) option" where
  "enable_select edev c =
     (if edev ''USB-Host'' = 1 then Some (OTG, store_max_current_mA 0 c)
      else if edev ''USB'' = 1 then Some (CHARGER, store_max_current_mA 500 (store_usb_online 1 c))
      else if edev ''Charge-downstream'' = 1
        then Some (CHARGER, store_max_current_mA 1500 (store_usb_online 1 c))
      else if edev ''TA'' = 1 then Some (CHARGER, store_max_current_mA 2000 (store_ac_online 1 c))
      else if edev ''Fast-charger'' = 1
        then Some (CHARGER, store_max_current_mA 2200 (store_ac_online 1 c))
      else if edev ''Slow-charger'' = 1
        then Some (CHARGER, store_max_current_mA 500 (store_ac_online 1 c))
      else None)"

text \<open>
  \<^verbatim>\<open>max77665_enable_charger\<close>; \<open>val0\<close> is the indeterminate initial content of the
  local \<^verbatim>\<open>val\<close> of \<^verbatim>\<open>max77665_get_max_input_current\<close>.
\<close>

definition max77665_enable_charger :: "'d env \<Rightarrow> extcon_dev \<Rightarrow> u32 \<Rightarrow> 'd charger \<Rightarrow> int \<times> 'd charger" where
  "max77665_enable_charger p edev val0 c =
     (let c1 = store_usb_online 0 c;
          c2 = store_ac_online 0 c1;
          c3 = (if update_status p then call_update_status 0 c2 else c2)
      in case enable_select edev c3 of
           None \<Rightarrow> enable_done 0 c3
         | Some (m, c4) \<Rightarrow>
             let (ret, c5) = max77665_set_charger_mode p m c4
             in if ret < 0 then enable_done ret c5
                else let c6 = alarm_start (cdiv (MAX77665_WATCHDOG_TIMER_PERIOD_S p) 2) c5
                     in if update_status p
                        then let ((ret, ilim), c7) = max77665_get_max_input_current p val0 c6
                             in if 0 > ret then enable_done ret c7
                                else enable_done ret (call_update_status ilim c7)
                        else enable_done ret c6)"

section \<open>Settled cable events\<close>

text \<open>
  \<^verbatim>\<open>charger_extcon_handle_notifier\<close> for a cable whose last raw event is \<open>event\<close>
  (\<open>0\<close> detached, \<open>1\<close> attached).
\<close>

definition charger_extcon_handle_notifier ::
  "'d env \<Rightarrow> int \<Rightarrow> extcon_dev \<Rightarrow> u32 \<Rightarrow> 'd charger \<Rightarrow> 'd charger" where
  "charger_extcon_handle_notifier p event edev val0 c =
     (let (ret, val, c1) = max77665_read_reg p MAX77665_CHG_DTLS_01 0 c
      in if 0 > ret then c1
         else if event = 0 \<and> \<not> charging_is_on p val then snd (max77665_disable_charger p edev c1)
         else if event = 1 \<and> \<not> charging_is_on p val then snd (max77665_enable_charger p edev val0 c1)
         else c1)"

section \<open>Observing a run\<close>

text \<open>
  The actions a call adds to the list, the actions that are bus transfers, and the
  relation between two states that differ by bus transfers only: the fields of the
  struct agree and the later list extends the earlier one by bus transfers.
\<close>

definition is_bus :: "event \<Rightarrow> bool" where
  "is_bus e = (case e of Bus_read r ret v \<Rightarrow> True | Bus_write r v ret \<Rightarrow> True | _ \<Rightarrow> False)"

definition is_bus_read :: "event \<Rightarrow> bool" where
  "is_bus_read e = (case e of Bus_read r ret v \<Rightarrow> True | _ \<Rightarrow> False)"

definition is_bus_write :: "event \<Rightarrow> bool" where
  "is_bus_write e = (case e of Bus_write r v ret \<Rightarrow> True | _ \<Rightarrow> False)"

definition is_update_status :: "event \<Rightarrow> bool" where
  "is_update_status e = (case e of Update_status mA \<Rightarrow> True | _ \<Rightarrow> False)"

definition new_events :: "'d charger \<Rightarrow> 'd charger \<Rightarrow> event list" where
  "new_events c c' = drop (length (events c)) (events c')"

definition same_struct :: "'d charger \<Rightarrow> 'd charger \<Rightarrow> bool" where
  "same_struct c c' = (mode c' = mode c \<and> max_current_mA c' = max_current_mA c
     \<and> ac_online c' = ac_online c \<and> usb_online c' = usb_online c \<and> oc_count c' = oc_count c
     \<and> wdt_alarm c' = wdt_alarm c \<and> wdt_ack_work c' = wdt_ack_work c
     \<and> set_max_current_work c' = set_max_current_work c)"

definition bus_only :: "'d charger \<Rightarrow> 'd charger \<Rightarrow> bool" where
  "bus_only c c' = (same_struct c c'
       \<and> take (length (events c)) (events c') = events c
       \<and> list_all is_bus (new_events c c'))"

text \<open>
  The statements of \<^verbatim>\<open>max77665_enable_charger\<close> that precede the chain over the cable
  names.
\<close>

definition enable_prelude :: "'d env \<Rightarrow> 'd charger \<Rightarrow> 'd charger" where
  "enable_prelude p c = (let c2 = store_ac_online 0 (store_usb_online 0 c)
                         in if update_status p then call_update_status 0 c2 else c2)"

section \<open>The calibration algorithm in the words of the specification\<close>








section \<open>Sample platforms\<close>

text \<open>
  Concrete platforms for evaluating the driver: sample values for the header's macros
  (a current step of 20 mA), combined with a given register transport.
\<close>

definition sample_env ::
  "(reg \<Rightarrow> 'd \<Rightarrow> (int \<times> u8) \<times> 'd) \<Rightarrow> (reg \<Rightarrow> u8 \<Rightarrow> 'd \<Rightarrow> int \<times> 'd) \<Rightarrow> bool \<Rightarrow> 'd env" where
  "sample_env rd wr upd = \<lparr> CURRENT_STEP_mA = 20, MIN_CURRENT_LIMIT_mA = 60,
     MAX77665_WATCHDOG_TIMER_PERIOD_S = 80,
     BYP_BIT = 1, DETBAT_BIT = 4, BAT_BIT = 8, CHG_BIT = 16, CHGIN_BIT = 64,
     CHGIN_DTLS_MASK = (\<lambda>v. drop_bit 5 (v AND 0x60)), CHGIN_DTLS_VALID = 3,
     BYP_DTLS_MASK = (\<lambda>v. v AND 0xF), BYP_DTLS_VALID = 0,
     BAT_DTLS_MASK = (\<lambda>v. drop_bit 4 (v AND 0x70)), BAT_DTLS_OVERCURRENT = 6,
     charging_is_on = (\<lambda>v. v AND 0xF \<le> 3),
     CHARGER_OFF_OTG_OFF_BUCK_ON_BOOST_OFF = 4,
     CHARGER_ON_OTG_OFF_BUCK_ON_BOOST_OFF = 5,
     CHARGER_OFF_OTG_ON_BUCK_OFF_BOOST_ON = 42,
     WDTEN = 16, VCHGIN_REGULATION_4V3 = 0,
     max77665_read = rd, max77665_write = wr, update_status = upd \<rparr>"

text \<open>A transport on which every transfer fails with \<open>-EIO\<close>.\<close>

definition dead_read :: "reg \<Rightarrow> unit \<Rightarrow> (int \<times> u8) \<times> unit" where
  "dead_read r h = ((- 5, 0), h)"

definition dead_write :: "reg \<Rightarrow> u8 \<Rightarrow> unit \<Rightarrow> int \<times> unit" where
  "dead_write r v h = (- 5, h)"

definition dead_env :: "unit env" where
  "dead_env = sample_env dead_read dead_write True"

text \<open>A chip that is a plain register file: writes are stored, reads return them.\<close>

definition rf_read :: "reg \<Rightarrow> (reg \<Rightarrow> u8) \<Rightarrow> (int \<times> u8) \<times> (reg \<Rightarrow> u8)" where
  "rf_read r h = ((0, h r), h)"

definition rf_write :: "reg \<Rightarrow> u8 \<Rightarrow> (reg \<Rightarrow> u8) \<Rightarrow> int \<times> (reg \<Rightarrow> u8)" where
  "rf_write r v h = (0, h(r := v))"

definition rf_env :: "(reg \<Rightarrow> u8) env" where
  "rf_env = sample_env rf_read rf_write True"

text \<open>The same chip on a platform whose data has no \<^verbatim>\<open>update_status\<close> callback.\<close>

definition rf_env_no_callback :: "(reg \<Rightarrow> u8) env" where
  "rf_env_no_callback = sample_env rf_read rf_write False"

text \<open>A charger in mode \<open>m\<close> with ceiling \<open>C\<close>, nothing pending, on chip state \<open>h\<close>.\<close>

definition sample_charger :: "'d \<Rightarrow> max77665_mode \<Rightarrow> int \<Rightarrow> 'd charger" where
  "sample_charger h m C = \<lparr> mode = m, max_current_mA = C, ac_online = 0, usb_online = 0,
     oc_count = 0, wdt_alarm = None, wdt_ack_work = None, set_max_current_work = None,
     hw = h, events = [] \<rparr>"

text \<open>What a calibration run reports: its return code and the ceiling it leaves stored.\<close>

definition calibration_outcome :: "(int \<times> 'd charger) option \<Rightarrow> (int \<times> int) option" where
  "calibration_outcome r = map_option (\<lambda>(ret, c). (ret, max_current_mA c)) r"

section \<open>Auxiliary facts\<close>

lemma int32_id: "- 2147483648 \<le> x \<Longrightarrow> x < 2147483648 \<Longrightarrow> int32 x = x"
  by (simp add: int32_def signed_take_bit_int_eq_self_iff)

lemma cdiv_nonneg: "0 \<le> a \<Longrightarrow> 0 < b \<Longrightarrow> cdiv a b = a div b"
  by (cases "a = 0") (simp_all add: cdiv_def)

lemma set_max_input_current_eq:
  "max77665_set_max_input_current p mA c =
     (0, snd (max77665_write_reg p MAX77665_CHG_CNFG_09 (cdiv mA (CURRENT_STEP_mA p)) c))"
  by (simp add: max77665_set_max_input_current_def split: prod.splits)

lemma ideal_loop_no_early_return:
  assumes "ideal_loop p mn mx c = Some y"
  shows "\<exists>mid. fst y = Inr mid"
proof (rule ideal_loop.raw_induct [where P = "\<lambda>p mn mx c y. \<exists>mid. fst y = Inr mid", OF _ assms])
  fix loop :: "'a env \<Rightarrow> int \<Rightarrow> int \<Rightarrow> 'a charger \<Rightarrow> ((int + int) \<times> 'a charger) option"
  fix p mn mx c y
  assume ih: "\<And>mn mx c b y. loop mn mx c b = Some y \<Longrightarrow> \<exists>mid. fst y = Inr mid"
  assume "(let mid = cdiv (int32 (mn + mx)) 2
      in case max77665_set_max_input_current p mid c of
         (ret, c1) \<Rightarrow>
           if ret < 0 then Some (Inl ret, c1)
           else case max77665_check_charging_ok p (msleep 50 c1) of
                (ok, c2) \<Rightarrow>
                  let mn' = if ok then mid else mn;
                      mx' = if ok then mx else mid
                  in if CURRENT_STEP_mA p \<le> int32 (mx' - mn')
                     then loop p mn' mx' c2 else Some (Inr mid, c2)) =
     Some y"
  then show "\<exists>mid. fst y = Inr mid"
    using ih
    by (auto simp: Let_def set_max_input_current_eq split: prod.splits if_splits)
qed

lemma sample_charger_ceiling:
  "max_current_mA ((sample_charger h m C)\<lparr>events := es\<rparr>) = C"
  "max_current_mA (sample_charger h m C) = C"
  by (simp_all add: sample_charger_def)

text \<open>The dead transport, evaluated.\<close>

lemma dead_step: "CURRENT_STEP_mA dead_env = 20"
  by (simp add: dead_env_def sample_env_def)

lemma dead_set_max:
  "0 \<le> mA \<Longrightarrow> mA < 5120 \<Longrightarrow> max77665_set_max_input_current dead_env mA c =
     (0, emit (Bus_write MAX77665_CHG_CNFG_09 (word_of_int (mA div 20)) (- 5)) (c\<lparr>hw := ()\<rparr>))"
  by (simp add: max77665_set_max_input_current_def max77665_write_reg_def dead_env_def
      sample_env_def dead_write_def cdiv_nonneg)

lemma dead_check:
  "max77665_check_charging_ok dead_env c =
     (False, emit (Bus_read MAX77665_CHG_DTLS_00 (- 5) 0) (c\<lparr>hw := ()\<rparr>))"
  by (simp add: max77665_check_charging_ok_def max77665_read_reg_def dead_env_def
      sample_env_def dead_read_def)

lemma dead_calibration_500:
  "max77665_set_ideal_input_current dead_env (sample_charger () CHARGER 500) =
     Some (0, (sample_charger () CHARGER 112)\<lparr>events :=
       [Bus_write MAX77665_CHG_CNFG_09 15 (- 5), Msleep 50, Bus_read MAX77665_CHG_DTLS_00 (- 5) 0,
        Bus_write MAX77665_CHG_CNFG_09 10 (- 5), Msleep 50, Bus_read MAX77665_CHG_DTLS_00 (- 5) 0,
        Bus_write MAX77665_CHG_CNFG_09 7 (- 5), Msleep 50, Bus_read MAX77665_CHG_DTLS_00 (- 5) 0,
        Bus_write MAX77665_CHG_CNFG_09 6 (- 5), Msleep 50, Bus_read MAX77665_CHG_DTLS_00 (- 5) 0,
        Bus_write MAX77665_CHG_CNFG_09 5 (- 5), Msleep 50, Bus_read MAX77665_CHG_DTLS_00 (- 5) 0,
        Store_max_current_mA 112]\<rparr>)"
  apply (simp add: max77665_set_ideal_input_current_def sample_charger_def)
  apply (subst ideal_loop.simps,
         simp add: dead_set_max dead_check dead_step int32_id cdiv_nonneg msleep_def emit_def)+
  apply (simp add: store_max_current_mA_def emit_def)
  done

text \<open>The register file, evaluated.\<close>

lemma rf_step: "CURRENT_STEP_mA rf_env = 20"
  by (simp add: rf_env_def sample_env_def)

lemma rf_set_max:
  "0 \<le> mA \<Longrightarrow> mA < 5120 \<Longrightarrow> max77665_set_max_input_current rf_env mA c =
     (0, emit (Bus_write MAX77665_CHG_CNFG_09 (word_of_int (mA div 20)) 0)
           (c\<lparr>hw := (hw c)(MAX77665_CHG_CNFG_09 := word_of_int (mA div 20))\<rparr>))"
  by (simp add: max77665_set_max_input_current_def max77665_write_reg_def rf_env_def
      sample_env_def rf_write_def cdiv_nonneg)

lemma rf_check_bad:
  "hw c MAX77665_CHG_DTLS_00 = 0 \<Longrightarrow> max77665_check_charging_ok rf_env c =
     (False, emit (Bus_read MAX77665_CHG_DTLS_00 0 0) c)"
  by (simp add: max77665_check_charging_ok_def max77665_read_reg_def rf_env_def
      sample_env_def rf_read_def)

lemma rf_check_good:
  "hw c MAX77665_CHG_DTLS_00 = 0x60 \<Longrightarrow> hw c MAX77665_CHG_DTLS_02 = 0 \<Longrightarrow>
   max77665_check_charging_ok rf_env c =
     (True, emit (Bus_read MAX77665_CHG_DTLS_02 0 0) (emit (Bus_read MAX77665_CHG_DTLS_00 0 0x60) c))"
  by (simp add: max77665_check_charging_ok_def max77665_read_reg_def rf_env_def
      sample_env_def rf_read_def emit_def)

lemma rf_calibration_500:
  "max77665_set_ideal_input_current rf_env (sample_charger (\<lambda>_. 0) CHARGER 500) =
     Some (0, (sample_charger ((\<lambda>_. 0)(MAX77665_CHG_CNFG_09 := 5)) CHARGER 112)\<lparr>events :=
       [Bus_write MAX77665_CHG_CNFG_09 15 0, Msleep 50, Bus_read MAX77665_CHG_DTLS_00 0 0,
        Bus_write MAX77665_CHG_CNFG_09 10 0, Msleep 50, Bus_read MAX77665_CHG_DTLS_00 0 0,
        Bus_write MAX77665_CHG_CNFG_09 7 0, Msleep 50, Bus_read MAX77665_CHG_DTLS_00 0 0,
        Bus_write MAX77665_CHG_CNFG_09 6 0, Msleep 50, Bus_read MAX77665_CHG_DTLS_00 0 0,
        Bus_write MAX77665_CHG_CNFG_09 5 0, Msleep 50, Bus_read MAX77665_CHG_DTLS_00 0 0,
        Store_max_current_mA 112]\<rparr>)"
  apply (simp add: max77665_set_ideal_input_current_def sample_charger_def)
  apply (subst ideal_loop.simps,
         simp add: rf_set_max rf_check_bad rf_step int32_id cdiv_nonneg msleep_def emit_def)+
  apply (simp add: store_max_current_mA_def emit_def)
  done

lemma rf_calibration_0:
  "max77665_set_ideal_input_current rf_env (sample_charger (\<lambda>_. 0) OTG 0) =
     Some (0, (sample_charger ((\<lambda>_. 0)(MAX77665_CHG_CNFG_09 := 2)) OTG 50)\<lparr>events :=
       [Bus_write MAX77665_CHG_CNFG_09 2 0, Msleep 50, Bus_read MAX77665_CHG_DTLS_00 0 0,
        Store_max_current_mA 50]\<rparr>)"
  apply (simp add: max77665_set_ideal_input_current_def sample_charger_def)
  apply (subst ideal_loop.simps,
         simp add: rf_set_max rf_check_bad rf_step int32_id cdiv_nonneg msleep_def emit_def)+
  apply (simp add: store_max_current_mA_def emit_def)
  done

lemma rf_calibration_good:
  "max77665_set_ideal_input_current rf_env
      (sample_charger ((\<lambda>_. 0)(MAX77665_CHG_DTLS_00 := 0x60)) CHARGER 500) =
     Some (0, (sample_charger ((\<lambda>_. 0)(MAX77665_CHG_DTLS_00 := 0x60, MAX77665_CHG_CNFG_09 := 24))
                 CHARGER 487)\<lparr>events :=
       [Bus_write MAX77665_CHG_CNFG_09 15 0, Msleep 50,
        Bus_read MAX77665_CHG_DTLS_00 0 96, Bus_read MAX77665_CHG_DTLS_02 0 0,
        Bus_write MAX77665_CHG_CNFG_09 20 0, Msleep 50,
        Bus_read MAX77665_CHG_DTLS_00 0 96, Bus_read MAX77665_CHG_DTLS_02 0 0,
        Bus_write MAX77665_CHG_CNFG_09 22 0, Msleep 50,
        Bus_read MAX77665_CHG_DTLS_00 0 96, Bus_read MAX77665_CHG_DTLS_02 0 0,
        Bus_write MAX77665_CHG_CNFG_09 23 0, Msleep 50,
        Bus_read MAX77665_CHG_DTLS_00 0 96, Bus_read MAX77665_CHG_DTLS_02 0 0,
        Bus_write MAX77665_CHG_CNFG_09 24 0, Msleep 50,
        Bus_read MAX77665_CHG_DTLS_00 0 96, Bus_read MAX77665_CHG_DTLS_02 0 0,
        Store_max_current_mA 487]\<rparr>)"
  apply (simp add: max77665_set_ideal_input_current_def sample_charger_def)
  apply (subst ideal_loop.simps,
         simp add: rf_set_max rf_check_good rf_step int32_id cdiv_nonneg msleep_def emit_def)+
  apply (simp add: store_max_current_mA_def emit_def)
  done

text \<open>
  One pass through the loop body, with the dead \<^verbatim>\<open>return ret\<close> removed; and the loop
  on a range that fits \<^verbatim>\<open>int\<close>: it ends, with a midpoint between the bounds.
\<close>

lemma ideal_loop_unfold:
  "ideal_loop p mn mx c =
     (let mid = cdiv (int32 (mn + mx)) 2;
          c1 = snd (max77665_set_max_input_current p mid c);
          r = max77665_check_charging_ok p (msleep 50 c1);
          mn' = (if fst r then mid else mn);
          mx' = (if fst r then mx else mid)
      in if CURRENT_STEP_mA p \<le> int32 (mx' - mn') then ideal_loop p mn' mx' (snd r)
         else Some (Inr mid, snd r))"
  by (subst ideal_loop.simps)
     (simp add: Let_def set_max_input_current_eq split: prod.splits)

lemma ideal_loop_total:
  assumes step: "2 \<le> CURRENT_STEP_mA p"
  shows "0 \<le> mn \<Longrightarrow> mn \<le> mx \<Longrightarrow> mx \<le> 1073741823 \<Longrightarrow>
         \<exists>mid c'. ideal_loop p mn mx c = Some (Inr mid, c') \<and> mn \<le> mid \<and> mid \<le> mx"
proof (induction "nat (mx - mn)" arbitrary: mn mx c rule: less_induct)
  case less
  define mid where "mid = (mn + mx) div 2"
  have mid: "cdiv (int32 (mn + mx)) 2 = mid"
    using less.prems by (simp add: int32_id cdiv_nonneg mid_def)
  have lo: "mn \<le> mid" and hi: "mid \<le> mx"
    using less.prems by (simp_all add: mid_def)
  define c1 where "c1 = snd (max77665_set_max_input_current p mid c)"
  define r where "r = max77665_check_charging_ok p (msleep 50 c1)"
  have d1: "int32 (mx - mid) = mx - mid" and d2: "int32 (mid - mn) = mid - mn"
    using less.prems lo hi by (simp_all add: int32_id)
  show ?case
  proof (cases "fst r")
    case True
    show ?thesis
    proof (cases "CURRENT_STEP_mA p \<le> mx - mid")
      case go: True
      have "nat (mx - mid) < nat (mx - mn)"
        using go step less.prems by (simp add: mid_def) linarith
      from less.hyps [OF this, of "snd r"] lo hi less.prems
      obtain m c' where "ideal_loop p mid mx (snd r) = Some (Inr m, c')" "mid \<le> m" "m \<le> mx"
        by auto
      then show ?thesis
        using True go lo
        by (subst ideal_loop_unfold) (simp add: Let_def mid c1_def [symmetric] r_def [symmetric] d1)
    next
      case False
      then show ?thesis
        using True lo hi
        by (subst ideal_loop_unfold) (simp add: Let_def mid c1_def [symmetric] r_def [symmetric] d1)
    qed
  next
    case nok: False
    show ?thesis
    proof (cases "CURRENT_STEP_mA p \<le> mid - mn")
      case go: True
      have "nat (mid - mn) < nat (mx - mn)"
        using go step less.prems by (simp add: mid_def) linarith
      from less.hyps [OF this, of "snd r"] lo hi less.prems
      obtain m c' where "ideal_loop p mn mid (snd r) = Some (Inr m, c')" "mn \<le> m" "m \<le> mid"
        by auto
      then show ?thesis
        using nok go hi
        by (subst ideal_loop_unfold) (simp add: Let_def mid c1_def [symmetric] r_def [symmetric] d2)
    next
      case False
      then show ?thesis
        using nok lo hi
        by (subst ideal_loop_unfold) (simp add: Let_def mid c1_def [symmetric] r_def [symmetric] d2)
    qed
  qed
qed










text \<open>Bus transfers leave the struct alone; the shape of a mode change and of the disable path.\<close>

lemma bus_only_iff:
  "bus_only c c' \<longleftrightarrow>
     same_struct c c' \<and> (\<exists>es. events c' = events c @ es \<and> list_all is_bus es)"
proof -
  have "(take (length (events c)) (events c') = events c \<and> list_all is_bus (new_events c c'))
        \<longleftrightarrow> (\<exists>es. events c' = events c @ es \<and> list_all is_bus es)"
    unfolding new_events_def
    by (metis append_eq_conv_conj)
  then show ?thesis by (auto simp: bus_only_def)
qed

lemma bus_only_refl: "bus_only c c"
  by (simp add: bus_only_def same_struct_def new_events_def)

lemma bus_only_trans: "bus_only a b \<Longrightarrow> bus_only b c \<Longrightarrow> bus_only a c"
  by (auto simp: bus_only_iff same_struct_def)

lemma write_reg_bus: "max77665_write_reg p r v c = (ret, c') \<Longrightarrow> bus_only c c'"
  by (auto simp: max77665_write_reg_def bus_only_iff same_struct_def emit_def is_bus_def
      split: if_splits prod.splits)

lemma read_reg_bus: "max77665_read_reg p r old c = (ret, v, c') \<Longrightarrow> bus_only c c'"
  by (auto simp: max77665_read_reg_def bus_only_iff same_struct_def emit_def is_bus_def Let_def
      split: if_splits prod.splits)

lemma enable_write_bus: "max77665_enable_write p a c = (ret, c') \<Longrightarrow> bus_only c c'"
  by (auto simp: max77665_enable_write_def split: if_splits dest: write_reg_bus)

lemma set_max_bus: "max77665_set_max_input_current p mA c = (ret, c') \<Longrightarrow> bus_only c c'"
  by (auto simp: max77665_set_max_input_current_def split: prod.splits dest: write_reg_bus)

lemma set_charger_mode_bus:
  "max77665_set_charger_mode p m c = (ret, c') \<Longrightarrow> bus_only (store_mode m c) c'"
  unfolding max77665_set_charger_mode_def Let_def
  by (auto split: prod.splits if_splits
      dest!: write_reg_bus read_reg_bus enable_write_bus set_max_bus
      intro: bus_only_trans)
     (meson bus_only_trans)+

lemma disable_events:
  "\<exists>es. events (snd (max77665_disable_charger p edev c)) =
     events c @ [Store_max_current_mA 0, Store_mode OFF] @ es
       @ [Cancel_delayed_work_sync Wdt_ack_work, Alarm_cancel]
       @ (if update_status p then [Update_status 0] else [])
       @ [Store_ac_online 0, Store_usb_online 0,
          Power_supply_changed Usb_psy, Power_supply_changed Ac_psy]
     \<and> list_all is_bus es"
proof -
  obtain ret c2 where m: "max77665_set_charger_mode p OFF (store_max_current_mA 0 c) = (ret, c2)"
    by (cases "max77665_set_charger_mode p OFF (store_max_current_mA 0 c)")
  from set_charger_mode_bus [OF m] obtain es where
    "events c2 = events c @ [Store_max_current_mA 0, Store_mode OFF] @ es" "list_all is_bus es"
    by (auto simp: bus_only_iff store_mode_def store_max_current_mA_def emit_def)
  then show ?thesis
    by (simp add: max77665_disable_charger_def Let_def m max77665_charger_disable_wdt_def
        alarm_cancel_def cancel_delayed_work_sync_def set_work_def call_update_status_def
        store_ac_online_def store_usb_online_def power_supply_changed_def emit_def)
qed

lemma disable_state:
  "mode (snd (max77665_disable_charger p edev c)) = OFF"
  "max_current_mA (snd (max77665_disable_charger p edev c)) = 0"
  "ac_online (snd (max77665_disable_charger p edev c)) = 0"
  "usb_online (snd (max77665_disable_charger p edev c)) = 0"
  "wdt_alarm (snd (max77665_disable_charger p edev c)) = None"
  "wdt_ack_work (snd (max77665_disable_charger p edev c)) = None"
proof -
  obtain ret c2 where m: "max77665_set_charger_mode p OFF (store_max_current_mA 0 c) = (ret, c2)"
    by (cases "max77665_set_charger_mode p OFF (store_max_current_mA 0 c)")
  from set_charger_mode_bus [OF m] have "mode c2 = OFF" "max_current_mA c2 = 0"
    by (auto simp: bus_only_def same_struct_def store_mode_def store_max_current_mA_def emit_def)
  then show "mode (snd (max77665_disable_charger p edev c)) = OFF"
  "max_current_mA (snd (max77665_disable_charger p edev c)) = 0"
  "ac_online (snd (max77665_disable_charger p edev c)) = 0"
  "usb_online (snd (max77665_disable_charger p edev c)) = 0"
  "wdt_alarm (snd (max77665_disable_charger p edev c)) = None"
  "wdt_ack_work (snd (max77665_disable_charger p edev c)) = None"
    by (simp_all add: max77665_disable_charger_def Let_def m max77665_charger_disable_wdt_def
        alarm_cancel_def cancel_delayed_work_sync_def set_work_def call_update_status_def
        store_ac_online_def store_usb_online_def power_supply_changed_def emit_def)
qed


lemma enable_write_event:
  "max77665_enable_write p a c = (ret, c') \<Longrightarrow>
     events c' = events c @ [Bus_write MAX77665_CHG_CNFG_06 (if a then 12 else 0) ret]
     \<and> same_struct c c'"
  by (auto simp: max77665_enable_write_def max77665_write_reg_def emit_def same_struct_def
      split: if_splits prod.splits)

lemma set_charger_mode_after_unlock:
  assumes u: "max77665_enable_write p True (store_mode m c) = (r1, c1)"
    and s: "max77665_set_charger_mode p m c = (ret, c')"
  shows "bus_only c1 c'"
  using s unfolding max77665_set_charger_mode_def Let_def u
  by (auto split: prod.splits if_splits
      dest!: write_reg_bus read_reg_bus enable_write_bus set_max_bus
      intro: bus_only_refl bus_only_trans)
     (meson bus_only_trans)+

lemma set_charger_mode_events:
  assumes "max77665_set_charger_mode p m c = (ret, c')"
  shows "\<exists>r es. events c' = events c @ [Store_mode m, Bus_write MAX77665_CHG_CNFG_06 12 r] @ es
           \<and> list_all is_bus es"
proof -
  obtain r1 c1 where u: "max77665_enable_write p True (store_mode m c) = (r1, c1)"
    by (cases "max77665_enable_write p True (store_mode m c)")
  from enable_write_event [OF u]
  have "events c1 = events c @ [Store_mode m, Bus_write MAX77665_CHG_CNFG_06 12 r1]"
    by (simp add: store_mode_def emit_def)
  with set_charger_mode_after_unlock [OF u assms] show ?thesis
    by (auto simp: bus_only_iff)
qed

lemma is_bus_not_update: "list_all is_bus es \<Longrightarrow> filter is_update_status es = []"
  by (induction es) (auto simp: is_bus_def is_update_status_def split: event.splits)

lemma rf_disable_events:
  "events (snd (max77665_disable_charger rf_env (\<lambda>_. 0)
       ((sample_charger (\<lambda>_. 0) CHARGER 500)\<lparr>usb_online := 1, wdt_alarm := Some 40\<rparr>))) =
     [Store_max_current_mA 0, Store_mode OFF,
      Bus_write MAX77665_CHG_CNFG_06 12 0, Bus_write MAX77665_CHG_CNFG_00 4 0,
      Bus_read MAX77665_CHG_CNFG_12 0 0, Bus_write MAX77665_CHG_CNFG_12 0 0,
      Bus_write MAX77665_CHG_CNFG_09 0 0, Bus_write MAX77665_CHG_CNFG_06 0 0,
      Cancel_delayed_work_sync Wdt_ack_work, Alarm_cancel, Update_status 0,
      Store_ac_online 0, Store_usb_online 0,
      Power_supply_changed Usb_psy, Power_supply_changed Ac_psy]"
  by (simp add: max77665_disable_charger_def max77665_set_charger_mode_def Let_def
      max77665_enable_write_def max77665_write_reg_def max77665_read_reg_def
      max77665_set_max_input_current_def mode_flags_def cdiv_def
      max77665_charger_disable_wdt_def alarm_cancel_def cancel_delayed_work_sync_def
      set_work_def call_update_status_def store_mode_def store_max_current_mA_def
      store_ac_online_def store_usb_online_def power_supply_changed_def emit_def
      rf_env_def sample_env_def rf_read_def rf_write_def sample_charger_def)

lemma rf_disable_events_no_callback:
  "events (snd (max77665_disable_charger rf_env_no_callback (\<lambda>_. 0)
       ((sample_charger (\<lambda>_. 0) CHARGER 500)\<lparr>usb_online := 1, wdt_alarm := Some 40\<rparr>))) =
     [Store_max_current_mA 0, Store_mode OFF,
      Bus_write MAX77665_CHG_CNFG_06 12 0, Bus_write MAX77665_CHG_CNFG_00 4 0,
      Bus_read MAX77665_CHG_CNFG_12 0 0, Bus_write MAX77665_CHG_CNFG_12 0 0,
      Bus_write MAX77665_CHG_CNFG_09 0 0, Bus_write MAX77665_CHG_CNFG_06 0 0,
      Cancel_delayed_work_sync Wdt_ack_work, Alarm_cancel,
      Store_ac_online 0, Store_usb_online 0,
      Power_supply_changed Usb_psy, Power_supply_changed Ac_psy]"
  by (simp add: max77665_disable_charger_def max77665_set_charger_mode_def Let_def
      max77665_enable_write_def max77665_write_reg_def max77665_read_reg_def
      max77665_set_max_input_current_def mode_flags_def cdiv_def
      max77665_charger_disable_wdt_def alarm_cancel_def cancel_delayed_work_sync_def
      set_work_def call_update_status_def store_mode_def store_max_current_mA_def
      store_ac_online_def store_usb_online_def power_supply_changed_def emit_def
      rf_env_no_callback_def sample_env_def rf_read_def rf_write_def sample_charger_def)

lemma dead_set_charger_mode:
  "max77665_set_charger_mode dead_env CHARGER (sample_charger () OFF 500) =
     (- 5, (sample_charger () CHARGER 500)\<lparr>events :=
              [Store_mode CHARGER, Bus_write MAX77665_CHG_CNFG_06 12 (- 5)]\<rparr>)"
  by (simp add: max77665_set_charger_mode_def Let_def
      max77665_enable_write_def max77665_write_reg_def store_mode_def emit_def
      dead_env_def sample_env_def dead_write_def sample_charger_def)


text \<open>The enable path and the settled-event handler.\<close>

lemma get_max_bus:
  "max77665_get_max_input_current p val0 c = ((ret, mA), c') \<Longrightarrow> bus_only c c'"
  by (auto simp: max77665_get_max_input_current_def Let_def split: prod.splits dest: read_reg_bus)

lemma enable_prelude_fields:
  "mode (enable_prelude p c) = mode c" "max_current_mA (enable_prelude p c) = max_current_mA c"
  "usb_online (enable_prelude p c) = 0" "ac_online (enable_prelude p c) = 0"
  "hw (enable_prelude p c) = hw c"
  "events (enable_prelude p c) = events c @ [Store_usb_online 0, Store_ac_online 0]
      @ (if update_status p then [Update_status 0] else [])"
  by (simp_all add: enable_prelude_def Let_def store_ac_online_def store_usb_online_def
      call_update_status_def emit_def)

lemma enable_charger_alt:
  "max77665_enable_charger p edev val0 c =
     (case enable_select edev (enable_prelude p c) of
        None \<Rightarrow> enable_done 0 (enable_prelude p c)
      | Some (m, c4) \<Rightarrow>
             let (ret, c5) = max77665_set_charger_mode p m c4
             in if ret < 0 then enable_done ret c5
                else let c6 = alarm_start (cdiv (MAX77665_WATCHDOG_TIMER_PERIOD_S p) 2) c5
                     in if update_status p
                        then let ((ret, ilim), c7) = max77665_get_max_input_current p val0 c6
                             in if 0 > ret then enable_done ret c7
                                else enable_done ret (call_update_status ilim c7)
                        else enable_done ret c6)"
  unfolding max77665_enable_charger_def enable_prelude_def Let_def
  by (simp split: option.splits)

lemma enable_fields_Some:
  assumes sel: "enable_select edev (enable_prelude p c) = Some (m, c4)"
  shows "mode (snd (max77665_enable_charger p edev val0 c)) = m
       \<and> max_current_mA (snd (max77665_enable_charger p edev val0 c)) = max_current_mA c4
       \<and> usb_online (snd (max77665_enable_charger p edev val0 c)) = usb_online c4
       \<and> ac_online (snd (max77665_enable_charger p edev val0 c)) = ac_online c4"
proof -
  obtain ret c5 where m: "max77665_set_charger_mode p m c4 = (ret, c5)"
    by (cases "max77665_set_charger_mode p m c4")
  from set_charger_mode_bus [OF m] have c5: "mode c5 = m" "max_current_mA c5 = max_current_mA c4"
    "usb_online c5 = usb_online c4" "ac_online c5 = ac_online c4"
    by (simp_all add: bus_only_def same_struct_def store_mode_def emit_def)
  obtain r2 ilim c7 where g: "max77665_get_max_input_current p val0
       (alarm_start (cdiv (MAX77665_WATCHDOG_TIMER_PERIOD_S p) 2) c5) = ((r2, ilim), c7)"
    by (metis surj_pair)
  from get_max_bus [OF g] have c7: "mode c7 = m" "max_current_mA c7 = max_current_mA c4"
    "usb_online c7 = usb_online c4" "ac_online c7 = ac_online c4"
    using c5 by (simp_all add: bus_only_def same_struct_def alarm_start_def emit_def)
  have c6: "mode (alarm_start s c5) = m" "max_current_mA (alarm_start s c5) = max_current_mA c4"
    "usb_online (alarm_start s c5) = usb_online c4" "ac_online (alarm_start s c5) = ac_online c4"
    for s
    using c5 by (simp_all add: alarm_start_def emit_def)
  from sel show ?thesis
    using c5 c6 c7
    by (simp add: enable_charger_alt Let_def m g
        enable_done_def power_supply_changed_def call_update_status_def emit_def)
qed

lemma enable_None:
  assumes sel: "enable_select edev (enable_prelude p c) = None"
  shows "max77665_enable_charger p edev val0 c = (0, enable_prelude p c)"
  using sel
  by (simp add: enable_charger_alt enable_done_def enable_prelude_fields)

lemma rf_notifier_detach_off:
  "events (charger_extcon_handle_notifier rf_env 0 (\<lambda>_. 0) 0
       (sample_charger ((\<lambda>_. 0)(MAX77665_CHG_DTLS_01 := 8)) OFF 0)) =
     [Bus_read MAX77665_CHG_DTLS_01 0 8,
      Store_max_current_mA 0, Store_mode OFF,
      Bus_write MAX77665_CHG_CNFG_06 12 0, Bus_write MAX77665_CHG_CNFG_00 4 0,
      Bus_read MAX77665_CHG_CNFG_12 0 0, Bus_write MAX77665_CHG_CNFG_12 0 0,
      Bus_write MAX77665_CHG_CNFG_09 0 0, Bus_write MAX77665_CHG_CNFG_06 0 0,
      Cancel_delayed_work_sync Wdt_ack_work, Alarm_cancel, Update_status 0,
      Store_ac_online 0, Store_usb_online 0,
      Power_supply_changed Usb_psy, Power_supply_changed Ac_psy]"
  by (simp add: charger_extcon_handle_notifier_def
      max77665_disable_charger_def max77665_set_charger_mode_def Let_def
      max77665_enable_write_def max77665_write_reg_def max77665_read_reg_def
      max77665_set_max_input_current_def mode_flags_def cdiv_def
      max77665_charger_disable_wdt_def alarm_cancel_def cancel_delayed_work_sync_def
      set_work_def call_update_status_def store_mode_def store_max_current_mA_def
      store_ac_online_def store_usb_online_def power_supply_changed_def emit_def
      rf_env_def sample_env_def rf_read_def rf_write_def sample_charger_def)

lemma rf_notifier_detach_on:
  "charger_extcon_handle_notifier rf_env 0 (\<lambda>_. 0) 0 (sample_charger (\<lambda>_. 0) CHARGER 500) =
     (sample_charger (\<lambda>_. 0) CHARGER 500)\<lparr>events := [Bus_read MAX77665_CHG_DTLS_01 0 0]\<rparr>"
  by (simp add: charger_extcon_handle_notifier_def Let_def max77665_read_reg_def emit_def
      rf_env_def sample_env_def rf_read_def sample_charger_def)

text \<open>The status decoder.\<close>

lemma read_reg_shape:
  "\<exists>ret rd h. max77665_read_reg p r old c =
     (ret, (if 0 > ret then old else ucast rd), c\<lparr>hw := h, events := events c @ [Bus_read r ret rd]\<rparr>)"
  by (auto simp: max77665_read_reg_def Let_def emit_def split: prod.splits)

lemma display_shape:
  "\<exists>h es. max77665_display_charger_status p status c = c\<lparr>hw := h, events := events c @ es\<rparr>
      \<and> list_all is_bus_read es"
proof (cases "list_all (\<lambda>b. status AND b \<noteq> 0)
           [BYP_BIT p, DETBAT_BIT p, BAT_BIT p, CHG_BIT p, CHGIN_BIT p]")
  case True
  then have "max77665_display_charger_status p status c = c\<lparr>hw := hw c, events := events c @ []\<rparr>"
    by (simp add: max77665_display_charger_status_def)
  then show ?thesis by (intro exI [of _ "hw c"] exI [of _ "[]"]) simp
next
  case False
  obtain r0 d0 h0 where a: "max77665_read_reg p MAX77665_CHG_DTLS_00 0 c =
      (r0, (if 0 > r0 then 0 else ucast d0), c\<lparr>hw := h0, events := events c @ [Bus_read MAX77665_CHG_DTLS_00 r0 d0]\<rparr>)"
    using read_reg_shape by metis
  define c0 where "c0 = c\<lparr>hw := h0, events := events c @ [Bus_read MAX77665_CHG_DTLS_00 r0 d0]\<rparr>"
  obtain r1 d1 h1 where b: "max77665_read_reg p MAX77665_CHG_DTLS_01 0 c0 =
      (r1, (if 0 > r1 then 0 else ucast d1), c0\<lparr>hw := h1, events := events c0 @ [Bus_read MAX77665_CHG_DTLS_01 r1 d1]\<rparr>)"
    using read_reg_shape by metis
  define c1 where "c1 = c0\<lparr>hw := h1, events := events c0 @ [Bus_read MAX77665_CHG_DTLS_01 r1 d1]\<rparr>"
  obtain r2 d2 h2 where d: "max77665_read_reg p MAX77665_CHG_DTLS_02 0 c1 =
      (r2, (if 0 > r2 then 0 else ucast d2), c1\<lparr>hw := h2, events := events c1 @ [Bus_read MAX77665_CHG_DTLS_02 r2 d2]\<rparr>)"
    using read_reg_shape by metis
  have "max77665_display_charger_status p status c =
      (let (r0, v0, c0) = max77665_read_reg p MAX77665_CHG_DTLS_00 0 c;
           (r1, v1, c1) = max77665_read_reg p MAX77665_CHG_DTLS_01 0 c0;
           (r2, v2, c2) = max77665_read_reg p MAX77665_CHG_DTLS_02 0 c1
       in c2)"
    unfolding max77665_display_charger_status_def by (simp only: False if_False)
  then have "max77665_display_charger_status p status c =
      c\<lparr>hw := h2, events := events c @ [Bus_read MAX77665_CHG_DTLS_00 r0 d0,
          Bus_read MAX77665_CHG_DTLS_01 r1 d1, Bus_read MAX77665_CHG_DTLS_02 r2 d2]\<rparr>"
    using a b d
    by (simp add: c0_def [symmetric] c1_def [symmetric])
       (simp add: c0_def c1_def)
  moreover have "list_all is_bus_read [Bus_read MAX77665_CHG_DTLS_00 r0 d0,
          Bus_read MAX77665_CHG_DTLS_01 r1 d1, Bus_read MAX77665_CHG_DTLS_02 r2 d2]"
    by (simp add: is_bus_read_def)
  ultimately show ?thesis by blast
qed

lemma reads_facts:
  "list_all is_bus_read es \<Longrightarrow> filter is_bus_write es = [] \<and> filter is_bus es = es
      \<and> Schedule_delayed_work k d \<notin> set es"
  by (induction es) (auto simp: is_bus_read_def is_bus_write_def is_bus_def split: event.splits)

lemma rf_handle_wrap:
  "max77665_handle_charger_status rf_env 0x55 0
      ((sample_charger ((\<lambda>_. 0)(MAX77665_CHG_DTLS_01 := 0x60)) CHARGER 500)\<lparr>oc_count := 0xFFFFFFFF\<rparr>) =
     (0, (sample_charger ((\<lambda>_. 0)(MAX77665_CHG_DTLS_01 := 0x60)) CHARGER 500)\<lparr>events :=
        [Bus_read MAX77665_CHG_DTLS_00 0 0, Bus_read MAX77665_CHG_DTLS_01 0 0x60,
         Bus_read MAX77665_CHG_DTLS_02 0 0, Bus_read MAX77665_CHG_DTLS_01 0 0x60,
         Store_oc_count 0]\<rparr>)"
  by (simp add: max77665_handle_charger_status_def max77665_display_charger_status_def Let_def
      max77665_read_reg_def store_oc_count_def emit_def
      rf_env_def sample_env_def rf_read_def sample_charger_def)

lemma rf_handle_quiet:
  "max77665_handle_charger_status rf_env 0x5D 0
      ((sample_charger ((\<lambda>_. 0)(MAX77665_CHG_DTLS_01 := 0x60)) CHARGER 500)\<lparr>oc_count := 7\<rparr>) =
     (0, (sample_charger ((\<lambda>_. 0)(MAX77665_CHG_DTLS_01 := 0x60)) CHARGER 500)\<lparr>oc_count := 7\<rparr>)"
  by (simp add: max77665_handle_charger_status_def max77665_display_charger_status_def Let_def
      rf_env_def sample_env_def)

lemma rf_handle_count:
  "max77665_handle_charger_status rf_env 0x05 0
      ((sample_charger ((\<lambda>_. 0)(MAX77665_CHG_DTLS_01 := 0x60)) CHARGER 500)\<lparr>oc_count := 7\<rparr>) =
     (0, (sample_charger ((\<lambda>_. 0)(MAX77665_CHG_DTLS_01 := 0x60)) CHARGER 500)\<lparr>oc_count := 8,
        set_max_current_work := Some 100, events :=
        [Bus_read MAX77665_CHG_DTLS_00 0 0, Bus_read MAX77665_CHG_DTLS_01 0 0x60,
         Bus_read MAX77665_CHG_DTLS_02 0 0, Schedule_delayed_work Set_max_current_work 100,
         Bus_read MAX77665_CHG_DTLS_01 0 0x60, Store_oc_count 8]\<rparr>)"
  by (simp add: max77665_handle_charger_status_def max77665_display_charger_status_def Let_def
      max77665_read_reg_def store_oc_count_def emit_def schedule_delayed_work_def
      work_pending_def set_work_def
      rf_env_def sample_env_def rf_read_def sample_charger_def)

text \<open>
  A calibration run that returns: the range of its midpoint and the last register write
  it issues.
\<close>

lemma read_reg_shape':
  "\<exists>ret v rd h. max77665_read_reg p r old c =
     (ret, v, c\<lparr>hw := h, events := events c @ [Bus_read r ret rd]\<rparr>)"
  using read_reg_shape [of p r old c] by blast

lemma check_shape:
  "\<exists>ok h es. max77665_check_charging_ok p c = (ok, c\<lparr>hw := h, events := events c @ es\<rparr>)
      \<and> list_all is_bus_read es"
proof -
  obtain r0 v0 d0 h0 where a: "max77665_read_reg p MAX77665_CHG_DTLS_00 0 c =
      (r0, v0, c\<lparr>hw := h0, events := events c @ [Bus_read MAX77665_CHG_DTLS_00 r0 d0]\<rparr>)"
    using read_reg_shape' by metis
  define c1 where "c1 = c\<lparr>hw := h0, events := events c @ [Bus_read MAX77665_CHG_DTLS_00 r0 d0]\<rparr>"
  obtain r2 v2 d2 h2 where b: "max77665_read_reg p MAX77665_CHG_DTLS_02 0 c1 =
      (r2, v2, c1\<lparr>hw := h2, events := events c1 @ [Bus_read MAX77665_CHG_DTLS_02 r2 d2]\<rparr>)"
    using read_reg_shape' by metis
  show ?thesis
  proof (cases "r0 < 0 \<or> CHGIN_DTLS_MASK p v0 \<noteq> CHGIN_DTLS_VALID p")
    case True
    have "max77665_check_charging_ok p c =
          (False, c\<lparr>hw := h0, events := events c @ [Bus_read MAX77665_CHG_DTLS_00 r0 d0]\<rparr>)"
      unfolding max77665_check_charging_ok_def Let_def a
      by (simp only: prod.case True if_True)
    moreover have "list_all is_bus_read [Bus_read MAX77665_CHG_DTLS_00 r0 d0]"
      by (simp add: is_bus_read_def)
    ultimately show ?thesis by blast
  next
    case False
    have "max77665_check_charging_ok p c =
          (\<not> (r2 < 0 \<or> BYP_DTLS_MASK p v2 \<noteq> BYP_DTLS_VALID p),
           c1\<lparr>hw := h2, events := events c1 @ [Bus_read MAX77665_CHG_DTLS_02 r2 d2]\<rparr>)"
      unfolding max77665_check_charging_ok_def Let_def a
      by (simp only: prod.case False if_False c1_def [symmetric] b) simp
    then have "max77665_check_charging_ok p c =
          (\<not> (r2 < 0 \<or> BYP_DTLS_MASK p v2 \<noteq> BYP_DTLS_VALID p),
           c\<lparr>hw := h2, events := events c @ [Bus_read MAX77665_CHG_DTLS_00 r0 d0,
                 Bus_read MAX77665_CHG_DTLS_02 r2 d2]\<rparr>)"
      by (simp add: c1_def)
    moreover have "list_all is_bus_read [Bus_read MAX77665_CHG_DTLS_00 r0 d0,
                 Bus_read MAX77665_CHG_DTLS_02 r2 d2]"
      by (simp add: is_bus_read_def)
    ultimately show ?thesis by blast
  qed
qed

lemma write_reg_shape:
  "0 \<le> v \<Longrightarrow> v \<le> 255 \<Longrightarrow> \<exists>r h. max77665_write_reg p rg v c =
      (r, c\<lparr>hw := h, events := events c @ [Bus_write rg (word_of_int v) r]\<rparr>)"
  by (cases "max77665_write p rg (word_of_int v) (hw c)")
     (auto simp: max77665_write_reg_def emit_def)

lemma set_max_shape:
  assumes "0 \<le> mA" "0 < CURRENT_STEP_mA p" "mA div CURRENT_STEP_mA p \<le> 255"
  shows "\<exists>ret r h. max77665_set_max_input_current p mA c =
      (ret, c\<lparr>hw := h, events := events c @
          [Bus_write MAX77665_CHG_CNFG_09 (word_of_int (mA div CURRENT_STEP_mA p)) r]\<rparr>)"
proof -
  have q: "cdiv mA (CURRENT_STEP_mA p) = mA div CURRENT_STEP_mA p"
    using assms by (simp add: cdiv_nonneg)
  have q0: "0 \<le> mA div CURRENT_STEP_mA p"
    using assms by (simp add: pos_imp_zdiv_nonneg_iff)
  from write_reg_shape [OF q0 assms(3), of p MAX77665_CHG_CNFG_09 c]
  obtain r h where "max77665_write_reg p MAX77665_CHG_CNFG_09 (mA div CURRENT_STEP_mA p) c =
      (r, c\<lparr>hw := h, events := events c @
          [Bus_write MAX77665_CHG_CNFG_09 (word_of_int (mA div CURRENT_STEP_mA p)) r]\<rparr>)"
    by blast
  then have "max77665_set_max_input_current p mA c =
      (0, c\<lparr>hw := h, events := events c @
          [Bus_write MAX77665_CHG_CNFG_09 (word_of_int (mA div CURRENT_STEP_mA p)) r]\<rparr>)"
    by (simp add: max77665_set_max_input_current_def q)
  then show ?thesis by blast
qed

lemma ideal_loop_range:
  assumes "ideal_loop p mn mx c = Some y"
  shows "0 \<le> mn \<and> mn \<le> mx \<and> mx \<le> 1073741823 \<longrightarrow>
           (case fst y of Inl ret \<Rightarrow> ret < 0 | Inr mid \<Rightarrow> mn \<le> mid \<and> mid \<le> mx)"
proof (rule ideal_loop.raw_induct [where P = "\<lambda>p mn mx c y.
         0 \<le> mn \<and> mn \<le> mx \<and> mx \<le> 1073741823 \<longrightarrow>
           (case fst y of Inl ret \<Rightarrow> ret < 0 | Inr mid \<Rightarrow> mn \<le> mid \<and> mid \<le> mx)", OF _ assms])
  fix loop :: "'a env \<Rightarrow> int \<Rightarrow> int \<Rightarrow> 'a charger \<Rightarrow> ((int + int) \<times> 'a charger) option"
  fix p mn mx c y
  assume ih: "\<And>q a b d z. loop q a b d = Some z \<Longrightarrow>
     0 \<le> a \<and> a \<le> b \<and> b \<le> 1073741823 \<longrightarrow>
           (case fst z of Inl ret \<Rightarrow> ret < 0 | Inr mid \<Rightarrow> a \<le> mid \<and> mid \<le> b)"
  assume body: "(let mid = cdiv (int32 (mn + mx)) 2
      in case max77665_set_max_input_current p mid c of
         (ret, c1) \<Rightarrow>
           if ret < 0 then Some (Inl ret, c1)
           else case max77665_check_charging_ok p (msleep 50 c1) of
                (ok, c2) \<Rightarrow>
                  let mn' = if ok then mid else mn;
                      mx' = if ok then mx else mid
                  in if CURRENT_STEP_mA p \<le> int32 (mx' - mn')
                     then loop p mn' mx' c2 else Some (Inr mid, c2)) =
     Some y"
  show "0 \<le> mn \<and> mn \<le> mx \<and> mx \<le> 1073741823 \<longrightarrow>
           (case fst y of Inl ret \<Rightarrow> ret < 0 | Inr mid \<Rightarrow> mn \<le> mid \<and> mid \<le> mx)"
  proof (intro impI, elim conjE)
    assume bnd: "0 \<le> mn" "mn \<le> mx" "mx \<le> 1073741823"
    define mid where "mid = (mn + mx) div 2"
    have midc: "cdiv (int32 (mn + mx)) 2 = mid"
      using bnd by (simp add: int32_id cdiv_nonneg mid_def)
    obtain ret cw where w: "max77665_set_max_input_current p mid c = (ret, cw)"
      by (cases "max77665_set_max_input_current p mid c")
    obtain ok c2 where ch: "max77665_check_charging_ok p (msleep 50 cw) = (ok, c2)"
      by (cases "max77665_check_charging_ok p (msleep 50 cw)")
    define mn' where "mn' = (if ok then mid else mn)"
    define mx' where "mx' = (if ok then mx else mid)"
    have lo: "mn \<le> mid" and hi: "mid \<le> mx"
      using bnd by (simp_all add: mid_def)
    have b: "0 \<le> mn'" "mn' \<le> mx'" "mx' \<le> mx" "mn \<le> mn'"
      using lo hi bnd(1,2) by (auto simp: mn'_def mx'_def)
    show "case fst y of Inl ret \<Rightarrow> ret < 0 | Inr m \<Rightarrow> mn \<le> m \<and> m \<le> mx"
    proof (cases "ret < 0")
      case True
      with body w have "y = (Inl ret, cw)" by (simp add: Let_def midc)
      with True show ?thesis by simp
    next
      case nf: False
      with body w ch have step:
        "(if CURRENT_STEP_mA p \<le> int32 (mx' - mn') then loop p mn' mx' c2
          else Some (Inr mid, c2)) = Some y"
        by (cases ok) (auto simp add: Let_def midc mn'_def mx'_def split: if_splits)
      show ?thesis
      proof (cases "CURRENT_STEP_mA p \<le> int32 (mx' - mn')")
        case True
        with step have "loop p mn' mx' c2 = Some y" by simp
        from ih [OF this] b bnd(3)
        have "case fst y of Inl ret \<Rightarrow> ret < 0 | Inr m \<Rightarrow> mn' \<le> m \<and> m \<le> mx'" by simp
        with b show ?thesis by (auto split: sum.splits)
      next
        case False
        with step lo hi show ?thesis by auto
      qed
    qed
  qed
qed

lemma ideal_loop_issues_last:
  assumes "ideal_loop p mn mx c = Some y"
  shows "0 \<le> mn \<and> mn \<le> mx \<and> mx \<le> 1073741823
           \<and> 0 < CURRENT_STEP_mA p \<and> mx div CURRENT_STEP_mA p \<le> 255 \<longrightarrow>
         (\<forall>mid. fst y = Inr mid \<longrightarrow>
            (\<exists>r es. events (snd y) = events c @ es
              \<and> filter is_bus_write es \<noteq> []
              \<and> last (filter is_bus_write es) =
                  Bus_write MAX77665_CHG_CNFG_09 (word_of_int (mid div CURRENT_STEP_mA p)) r))"
proof (rule ideal_loop.raw_induct [where P = "\<lambda>p mn mx c y.
         0 \<le> mn \<and> mn \<le> mx \<and> mx \<le> 1073741823
           \<and> 0 < CURRENT_STEP_mA p \<and> mx div CURRENT_STEP_mA p \<le> 255 \<longrightarrow>
         (\<forall>mid. fst y = Inr mid \<longrightarrow>
            (\<exists>r es. events (snd y) = events c @ es
              \<and> filter is_bus_write es \<noteq> []
              \<and> last (filter is_bus_write es) =
                  Bus_write MAX77665_CHG_CNFG_09 (word_of_int (mid div CURRENT_STEP_mA p)) r))",
      OF _ assms])
  fix loop :: "'a env \<Rightarrow> int \<Rightarrow> int \<Rightarrow> 'a charger \<Rightarrow> ((int + int) \<times> 'a charger) option"
  fix p mn mx c y
  assume ih: "\<And>q a b d z. loop q a b d = Some z \<Longrightarrow>
     0 \<le> a \<and> a \<le> b \<and> b \<le> 1073741823
           \<and> 0 < CURRENT_STEP_mA q \<and> b div CURRENT_STEP_mA q \<le> 255 \<longrightarrow>
         (\<forall>mid. fst z = Inr mid \<longrightarrow>
            (\<exists>r es. events (snd z) = events d @ es
              \<and> filter is_bus_write es \<noteq> []
              \<and> last (filter is_bus_write es) =
                  Bus_write MAX77665_CHG_CNFG_09 (word_of_int (mid div CURRENT_STEP_mA q)) r))"
  assume body: "(let mid = cdiv (int32 (mn + mx)) 2
      in case max77665_set_max_input_current p mid c of
         (ret, c1) \<Rightarrow>
           if ret < 0 then Some (Inl ret, c1)
           else case max77665_check_charging_ok p (msleep 50 c1) of
                (ok, c2) \<Rightarrow>
                  let mn' = if ok then mid else mn;
                      mx' = if ok then mx else mid
                  in if CURRENT_STEP_mA p \<le> int32 (mx' - mn')
                     then loop p mn' mx' c2 else Some (Inr mid, c2)) =
     Some y"
  show "0 \<le> mn \<and> mn \<le> mx \<and> mx \<le> 1073741823
           \<and> 0 < CURRENT_STEP_mA p \<and> mx div CURRENT_STEP_mA p \<le> 255 \<longrightarrow>
         (\<forall>mid. fst y = Inr mid \<longrightarrow>
            (\<exists>r es. events (snd y) = events c @ es
              \<and> filter is_bus_write es \<noteq> []
              \<and> last (filter is_bus_write es) =
                  Bus_write MAX77665_CHG_CNFG_09 (word_of_int (mid div CURRENT_STEP_mA p)) r))"
  proof (intro impI allI, elim conjE)
    fix m
    assume bnd: "0 \<le> mn" "mn \<le> mx" "mx \<le> 1073741823"
      and pos: "0 < CURRENT_STEP_mA p" and fits: "mx div CURRENT_STEP_mA p \<le> 255"
      and normal: "fst y = Inr m"
    define mid where "mid = (mn + mx) div 2"
    have midc: "cdiv (int32 (mn + mx)) 2 = mid"
      using bnd by (simp add: int32_id cdiv_nonneg mid_def)
    have lo: "mn \<le> mid" and hi: "mid \<le> mx"
      using bnd by (simp_all add: mid_def)
    have mid0: "0 \<le> mid" using lo bnd(1) by simp
    have midq: "mid div CURRENT_STEP_mA p \<le> 255"
      using zdiv_mono1 [OF hi pos] fits by simp
    define wr where "wr = (\<lambda>r. Bus_write MAX77665_CHG_CNFG_09
                               (word_of_int (mid div CURRENT_STEP_mA p)) r)"
    from set_max_shape [OF mid0 pos midq, of c]
    obtain ret r h where w: "max77665_set_max_input_current p mid c =
        (ret, c\<lparr>hw := h, events := events c @ [wr r]\<rparr>)"
      unfolding wr_def by blast
    define cw where "cw = c\<lparr>hw := h, events := events c @ [wr r]\<rparr>"
    define cs where "cs = msleep 50 cw"
    from check_shape [of p cs]
    obtain ok h' es where ch: "max77665_check_charging_ok p cs =
         (ok, cs\<lparr>hw := h', events := events cs @ es\<rparr>)" and es: "list_all is_bus_read es"
      by (elim exE conjE) (rule that)
    define c2 where "c2 = cs\<lparr>hw := h', events := events cs @ es\<rparr>"
    have ev2: "events c2 = events c @ (wr r # Msleep 50 # es)"
      by (simp add: c2_def cs_def cw_def msleep_def emit_def)
    define mn' where "mn' = (if ok then mid else mn)"
    define mx' where "mx' = (if ok then mx else mid)"
    have b: "0 \<le> mn'" "mn' \<le> mx'" "mx' \<le> mx" "mn \<le> mn'"
      using lo hi bnd(1,2) by (auto simp: mn'_def mx'_def)
    have fw: "filter is_bus_write (wr r # Msleep 50 # es) = [wr r]"
      using reads_facts [OF es, of Wdt_ack_work 0] by (simp add: is_bus_write_def wr_def)
    have w': "max77665_set_max_input_current p mid c = (ret, cw)"
      using w by (simp add: cw_def)
    have ch': "max77665_check_charging_ok p (msleep 50 cw) = (ok, c2)"
      using ch by (simp add: c2_def cs_def)
    have nf: "\<not> ret < 0"
    proof
      assume "ret < 0"
      with body w' have "y = (Inl ret, cw)" by (simp add: Let_def midc)
      with normal show False by simp
    qed
    with body w' ch' have step:
      "(if CURRENT_STEP_mA p \<le> int32 (mx' - mn') then loop p mn' mx' c2
        else Some (Inr mid, c2)) = Some y"
      by (cases ok) (auto simp add: Let_def midc mn'_def mx'_def split: if_splits)
    show "\<exists>r es. events (snd y) = events c @ es
            \<and> filter is_bus_write es \<noteq> []
            \<and> last (filter is_bus_write es) =
                Bus_write MAX77665_CHG_CNFG_09 (word_of_int (m div CURRENT_STEP_mA p)) r"
    proof (cases "CURRENT_STEP_mA p \<le> int32 (mx' - mn')")
      case False
      with step have y: "y = (Inr mid, c2)" by simp
      with normal have "m = mid" by simp
      then show ?thesis
        using fw ev2 y by (auto simp: wr_def)
    next
      case True
      with step have rec: "loop p mn' mx' c2 = Some y" by simp
      have q: "mx' div CURRENT_STEP_mA p \<le> 255"
        using zdiv_mono1 [OF b(3) pos] fits by simp
      from ih [OF rec] b bnd(3) pos q normal
      obtain r2 es2 where ev: "events (snd y) = events c2 @ es2"
        and ne: "filter is_bus_write es2 \<noteq> []"
        and la: "last (filter is_bus_write es2) =
                  Bus_write MAX77665_CHG_CNFG_09 (word_of_int (m div CURRENT_STEP_mA p)) r2"
        by auto
      have "events (snd y) = events c @ (wr r # Msleep 50 # es) @ es2"
        using ev ev2 by simp
      moreover have "filter is_bus_write ((wr r # Msleep 50 # es) @ es2) \<noteq> []"
        using ne by simp
      moreover have "last (filter is_bus_write ((wr r # Msleep 50 # es) @ es2)) =
                  Bus_write MAX77665_CHG_CNFG_09 (word_of_int (m div CURRENT_STEP_mA p)) r2"
        using la by (simp only: filter_append last_appendR [OF ne])
      ultimately show ?thesis by blast
    qed
  qed
qed

section \<open>Properties\<close>

text \<open>
  C1, as stated: every calibration run started with ceiling \<open>C\<close> stores a ceiling within
  \<open>[100, C]\<close> that is a multiple of \<^verbatim>\<open>CURRENT_STEP_mA\<close>. It fails both ways. With a
  step of 20 mA and a source that never passes the check, a run from 500 mA returns 0
  and stores 112, not a multiple of 20; a run from ceiling 0 (the ceiling of the
  reverse-boost mode) stores 50, outside \<open>[100, 0]\<close>.
\<close>

theorem calibration_ceiling_counterexample:
  "calibration_outcome (max77665_set_ideal_input_current rf_env
       (sample_charger (\<lambda>_. 0) CHARGER 500)) = Some (0, 112)
   \<and> \<not> CURRENT_STEP_mA rf_env dvd 112
   \<and> calibration_outcome (max77665_set_ideal_input_current rf_env
       (sample_charger (\<lambda>_. 0) OTG 0)) = Some (0, 50)
   \<and> \<not> (100 \<le> (50 :: int) \<and> (50 :: int) \<le> 0)"
  by (simp add: calibration_outcome_def rf_calibration_500 rf_calibration_0 rf_step
      sample_charger_ceiling)

text \<open>
  C1, amended: for a calibration run started with a ceiling \<open>C\<close> of at least 100 (small
  enough for \<^verbatim>\<open>min + max\<close> to fit an \<^verbatim>\<open>int\<close>), the ceiling stored on successful return
  lies within \<open>[100, C]\<close>. The stored value is the last midpoint, not rounded to the
  step; when the step is positive and \<open>C / CURRENT_STEP_mA\<close> fits the register, the last
  register write the run issues is the write of the stored value divided by the step to
  \<^verbatim>\<open>CHG_CNFG_09\<close>, whatever that write returns.
\<close>

theorem calibration_ceiling_in_range:
  assumes "100 \<le> max_current_mA c"
    and "max_current_mA c \<le> 1073741823"
    and "max77665_set_ideal_input_current p c = Some (0, c')"
  shows "100 \<le> max_current_mA c' \<and> max_current_mA c' \<le> max_current_mA c
         \<and> (0 < CURRENT_STEP_mA p \<and> max_current_mA c div CURRENT_STEP_mA p \<le> 255 \<longrightarrow>
              (\<exists>r. last (filter is_bus_write (new_events c c')) =
                 Bus_write MAX77665_CHG_CNFG_09
                   (word_of_int (max_current_mA c' div CURRENT_STEP_mA p)) r))"
proof -
  from assms(3) obtain y where run: "ideal_loop p 100 (max_current_mA c) c = Some y"
    by (auto simp: max77665_set_ideal_input_current_def split: option.splits)
  from ideal_loop_range [OF run] assms(1,2)
  have shape: "case fst y of Inl ret \<Rightarrow> ret < 0 | Inr mid \<Rightarrow> 100 \<le> mid \<and> mid \<le> max_current_mA c"
    by simp
  from assms(3) run shape obtain mid c1 where y: "y = (Inr mid, c1)"
    by (cases y, cases "fst y")
       (auto simp: max77665_set_ideal_input_current_def)
  from shape y have range: "100 \<le> mid" "mid \<le> max_current_mA c" by simp_all
  from assms(3) have c': "c' = store_max_current_mA mid c1"
    by (simp add: max77665_set_ideal_input_current_def run y)
  have stored: "max_current_mA c' = mid"
    by (simp add: c' store_max_current_mA_def emit_def)
  have "\<exists>r. last (filter is_bus_write (new_events c c')) =
          Bus_write MAX77665_CHG_CNFG_09 (word_of_int (mid div CURRENT_STEP_mA p)) r"
    if pos: "0 < CURRENT_STEP_mA p" and fits: "max_current_mA c div CURRENT_STEP_mA p \<le> 255"
  proof -
    from ideal_loop_issues_last [OF run] assms(1,2) pos fits y
    obtain r es where ev: "events c1 = events c @ es"
      and la: "last (filter is_bus_write es) =
                 Bus_write MAX77665_CHG_CNFG_09 (word_of_int (mid div CURRENT_STEP_mA p)) r"
      by auto
    have "filter is_bus_write (new_events c c') = filter is_bus_write es"
      by (simp add: new_events_def c' store_max_current_mA_def emit_def ev is_bus_write_def)
    with la show ?thesis by auto
  qed
  with range stored show ?thesis by auto
qed

theorem calibration_ceiling_in_range_witness:
  "100 \<le> max_current_mA (sample_charger ((\<lambda>_. 0 :: u8)(MAX77665_CHG_DTLS_00 := 0x60)) CHARGER 500)
   \<and> max_current_mA (sample_charger ((\<lambda>_. 0 :: u8)(MAX77665_CHG_DTLS_00 := 0x60)) CHARGER 500)
        \<le> 1073741823
   \<and> 0 < CURRENT_STEP_mA rf_env
   \<and> max_current_mA (sample_charger ((\<lambda>_. 0 :: u8)(MAX77665_CHG_DTLS_00 := 0x60)) CHARGER 500)
        div CURRENT_STEP_mA rf_env \<le> 255
   \<and> (\<exists>c'. max77665_set_ideal_input_current rf_env
              (sample_charger ((\<lambda>_. 0)(MAX77665_CHG_DTLS_00 := 0x60)) CHARGER 500) = Some (0, c')
            \<and> max_current_mA c' = 487
            \<and> 100 \<le> max_current_mA c' \<and> max_current_mA c' \<le> 500
            \<and> last (filter is_bus_write (new_events
                  (sample_charger ((\<lambda>_. 0)(MAX77665_CHG_DTLS_00 := 0x60)) CHARGER 500) c'))
                = Bus_write MAX77665_CHG_CNFG_09 24 0)"
  using calibration_ceiling_in_range
          [of "sample_charger ((\<lambda>_. 0)(MAX77665_CHG_DTLS_00 := 0x60)) CHARGER 500",
           OF _ _ rf_calibration_good]
  by (simp add: rf_step rf_calibration_good sample_charger_ceiling)
     (simp add: new_events_def sample_charger_def is_bus_write_def)





text \<open>
  C3. The claim: a failed write of a midpoint aborts calibration with a device error and
  leaves the stored ceiling at its last applied value. The loop does test the return
  value of \<^verbatim>\<open>max77665_set_max_input_current\<close>, but that function returns 0 whatever the
  write returned. On a transport where the very first midpoint write (300 mA, register
  value 15) fails with \<open>-5\<close>, calibration from 500 mA runs to its end, returns 0 and
  stores 112.
\<close>

theorem calibration_ignores_write_failure:
  "fst (max77665_write_reg dead_env MAX77665_CHG_CNFG_09 15 (sample_charger () CHARGER 500)) = - 5
   \<and> calibration_outcome (max77665_set_ideal_input_current dead_env
        (sample_charger () CHARGER 500)) = Some (0, 112)"
proof -
  have "fst (max77665_write_reg dead_env MAX77665_CHG_CNFG_09 15 (sample_charger () CHARGER 500)) = - 5"
    by (simp add: max77665_write_reg_def dead_env_def sample_env_def dead_write_def)
  then show ?thesis
    by (simp add: calibration_outcome_def dead_calibration_500 sample_charger_ceiling)
qed


text \<open>
  C4, as stated: after the disable path the status-reporting collaborator has been
  notified with ceiling 0, for every prior state. The code calls the callback only when
  the platform data supplies one (\<^verbatim>\<open>if (charger->plat_data->update_status)\<close>). On a
  platform without it the disable path runs to its end and notifies nobody.
\<close>

theorem disable_notifies_counterexample:
  "\<not> update_status rf_env_no_callback
   \<and> events (snd (max77665_disable_charger rf_env_no_callback (\<lambda>_. 0)
       ((sample_charger (\<lambda>_. 0) CHARGER 500)\<lparr>usb_online := 1, wdt_alarm := Some 40\<rparr>))) =
     [Store_max_current_mA 0, Store_mode OFF,
      Bus_write MAX77665_CHG_CNFG_06 12 0, Bus_write MAX77665_CHG_CNFG_00 4 0,
      Bus_read MAX77665_CHG_CNFG_12 0 0, Bus_write MAX77665_CHG_CNFG_12 0 0,
      Bus_write MAX77665_CHG_CNFG_09 0 0, Bus_write MAX77665_CHG_CNFG_06 0 0,
      Cancel_delayed_work_sync Wdt_ack_work, Alarm_cancel,
      Store_ac_online 0, Store_usb_online 0,
      Power_supply_changed Usb_psy, Power_supply_changed Ac_psy]
   \<and> Update_status 0 \<notin> set (events (snd (max77665_disable_charger rf_env_no_callback (\<lambda>_. 0)
       ((sample_charger (\<lambda>_. 0) CHARGER 500)\<lparr>usb_online := 1, wdt_alarm := Some 40\<rparr>))))"
  by (simp add: rf_disable_events_no_callback) (simp add: rf_env_no_callback_def sample_env_def)

text \<open>
  C4, amended. After \<^verbatim>\<open>max77665_disable_charger\<close>, from any prior state and whatever the
  register transport does: the mode is \<open>OFF\<close>, the ceiling is 0, both online flags are 0,
  the watchdog is disarmed (no pending acknowledgment work, alarm not armed), and the
  status callback, when the platform supplies one, has been called exactly once, with 0;
  when the platform supplies none, nothing is notified.
\<close>

theorem disable_charger_final_state:
  "(let c' = snd (max77665_disable_charger p edev c)
    in mode c' = OFF \<and> max_current_mA c' = 0 \<and> ac_online c' = 0 \<and> usb_online c' = 0
       \<and> wdt_alarm c' = None \<and> wdt_ack_work c' = None
       \<and> filter is_update_status (new_events c c')
           = (if update_status p then [Update_status 0] else []))"
proof -
  from disable_events [of p edev c] obtain es where
    ev: "events (snd (max77665_disable_charger p edev c)) =
       events c @ [Store_max_current_mA 0, Store_mode OFF] @ es
         @ [Cancel_delayed_work_sync Wdt_ack_work, Alarm_cancel]
         @ (if update_status p then [Update_status 0] else [])
         @ [Store_ac_online 0, Store_usb_online 0,
            Power_supply_changed Usb_psy, Power_supply_changed Ac_psy]"
    and bus: "list_all is_bus es"
    by blast
  have "filter is_update_status (new_events c (snd (max77665_disable_charger p edev c)))
          = (if update_status p then [Update_status 0] else [])"
    by (simp add: new_events_def ev is_bus_not_update [OF bus] is_update_status_def)
  then show ?thesis
    by (simp add: Let_def disable_state)
qed

theorem disable_charger_final_state_witness:
  "(let c' = snd (max77665_disable_charger rf_env (\<lambda>_. 0)
                ((sample_charger (\<lambda>_. 0) CHARGER 500)\<lparr>usb_online := 1, wdt_alarm := Some 40\<rparr>))
    in mode c' = OFF \<and> max_current_mA c' = 0 \<and> ac_online c' = 0 \<and> usb_online c' = 0
       \<and> wdt_alarm c' = None \<and> wdt_ack_work c' = None
       \<and> filter is_update_status (events c') = [Update_status 0])"
  using disable_charger_final_state [of rf_env "\<lambda>_. 0"
          "(sample_charger (\<lambda>_. 0) CHARGER 500)\<lparr>usb_online := 1, wdt_alarm := Some 40\<rparr>"]
  by (simp add: Let_def rf_disable_events is_update_status_def)

text \<open>
  C5. On the enable path the source is classified by the first cable name, in the order
  USB-Host, USB, Charge-downstream, TA, Fast-charger, Slow-charger, whose state is 1:
  reverse-boost host (mode \<open>OTG\<close>, ceiling 0, no online flag), USB (500 mA, usb_online),
  charge-downstream (1500 mA, usb_online), generic AC (2000 mA, ac_online), fast AC
  (2200 mA, ac_online), slow AC (500 mA, ac_online). Afterwards at most one online flag
  is set. With no recognised cable the mode and the chip are left alone: the call only
  clears the online flags and reports 0 to the status callback, if there is one.
\<close>

theorem enable_charger_classifies:
  "(let c' = snd (max77665_enable_charger p edev val0 c)
    in (mode c', max_current_mA c', usb_online c', ac_online c') =
         (if edev ''USB-Host'' = 1 then (OTG, 0, 0, 0)
          else if edev ''USB'' = 1 then (CHARGER, 500, 1, 0)
          else if edev ''Charge-downstream'' = 1 then (CHARGER, 1500, 1, 0)
          else if edev ''TA'' = 1 then (CHARGER, 2000, 0, 1)
          else if edev ''Fast-charger'' = 1 then (CHARGER, 2200, 0, 1)
          else if edev ''Slow-charger'' = 1 then (CHARGER, 500, 0, 1)
          else (mode c, max_current_mA c, 0, 0))
       \<and> (ac_online c' = 0 \<or> usb_online c' = 0)
       \<and> (edev ''USB-Host'' \<noteq> 1 \<and> edev ''USB'' \<noteq> 1 \<and> edev ''Charge-downstream'' \<noteq> 1
            \<and> edev ''TA'' \<noteq> 1 \<and> edev ''Fast-charger'' \<noteq> 1 \<and> edev ''Slow-charger'' \<noteq> 1
          \<longrightarrow> mode c' = mode c \<and> hw c' = hw c
              \<and> new_events c c' = [Store_usb_online 0, Store_ac_online 0]
                    @ (if update_status p then [Update_status 0] else [])))"
proof (cases "enable_select edev (enable_prelude p c)")
  case None
  then have no: "edev ''USB-Host'' \<noteq> 1 \<and> edev ''USB'' \<noteq> 1 \<and> edev ''Charge-downstream'' \<noteq> 1
            \<and> edev ''TA'' \<noteq> 1 \<and> edev ''Fast-charger'' \<noteq> 1 \<and> edev ''Slow-charger'' \<noteq> 1"
    by (simp add: enable_select_def split: if_splits)
  show ?thesis
    using no by (simp add: enable_None [OF None] enable_prelude_fields new_events_def)
next
  case (Some a)
  obtain m c4 where a: "a = (m, c4)" by (cases a)
  from Some a have sel: "enable_select edev (enable_prelude p c) = Some (m, c4)" by simp
  from sel have "(m, max_current_mA c4, usb_online c4, ac_online c4) =
         (if edev ''USB-Host'' = 1 then (OTG, 0, 0, 0)
          else if edev ''USB'' = 1 then (CHARGER, 500, 1, 0)
          else if edev ''Charge-downstream'' = 1 then (CHARGER, 1500, 1, 0)
          else if edev ''TA'' = 1 then (CHARGER, 2000, 0, 1)
          else if edev ''Fast-charger'' = 1 then (CHARGER, 2200, 0, 1)
          else if edev ''Slow-charger'' = 1 then (CHARGER, 500, 0, 1)
          else (mode c, max_current_mA c, 0, 0))
       \<and> (edev ''USB-Host'' = 1 \<or> edev ''USB'' = 1 \<or> edev ''Charge-downstream'' = 1
            \<or> edev ''TA'' = 1 \<or> edev ''Fast-charger'' = 1 \<or> edev ''Slow-charger'' = 1)"
    by (auto simp: enable_select_def enable_prelude_fields store_max_current_mA_def
        store_usb_online_def store_ac_online_def emit_def split: if_splits)
  with enable_fields_Some [OF sel, of val0] show ?thesis
    by (auto simp: Let_def split: if_splits)
qed


theorem enable_charger_classifies_witness:
  "(let c' = snd (max77665_enable_charger rf_env (\<lambda>_. 0) 0 (sample_charger (\<lambda>_. 0) OFF 0))
    in mode c' = OFF \<and> hw c' = (\<lambda>_. 0)
       \<and> events c' = [Store_usb_online 0, Store_ac_online 0, Update_status 0])
   \<and> (let c' = snd (max77665_enable_charger rf_env ((\<lambda>_. 0)(''USB'' := 1)) 0
                      (sample_charger (\<lambda>_. 0) OFF 0))
      in mode c' = CHARGER \<and> max_current_mA c' = 500 \<and> usb_online c' = 1 \<and> ac_online c' = 0)"
  using enable_charger_classifies [of rf_env "\<lambda>_. 0" 0 "sample_charger (\<lambda>_. 0) OFF 0"]
        enable_charger_classifies [of rf_env "(\<lambda>_. 0)(''USB'' := 1)" 0 "sample_charger (\<lambda>_. 0) OFF 0"]
  by (simp add: Let_def new_events_def sample_charger_def rf_env_def sample_env_def)

text \<open>
  C6, as stated: the overcurrent counter is non-decreasing across all handler
  invocations. \<^verbatim>\<open>oc_count\<close> is an \<^verbatim>\<open>unsigned int\<close>: at \<open>0xFFFFFFFF\<close> one more overcurrent
  detail takes it to 0.
\<close>

theorem oc_count_wraps_counterexample:
  "oc_count (snd (max77665_handle_charger_status rf_env 0x55 0
      ((sample_charger ((\<lambda>_. 0)(MAX77665_CHG_DTLS_01 := 0x60)) CHARGER 500)\<lparr>oc_count := 0xFFFFFFFF\<rparr>))) = 0
   \<and> \<not> oc_count ((sample_charger ((\<lambda>_. 0)(MAX77665_CHG_DTLS_01 := 0x60)) CHARGER 500)
                   \<lparr>oc_count := 0xFFFFFFFF\<rparr> :: (reg \<Rightarrow> u8) charger)
        \<le> oc_count (snd (max77665_handle_charger_status rf_env 0x55 0
      ((sample_charger ((\<lambda>_. 0)(MAX77665_CHG_DTLS_01 := 0x60)) CHARGER 500)\<lparr>oc_count := 0xFFFFFFFF\<rparr>)))"
  by (simp add: rf_handle_wrap) (simp add: sample_charger_def)

text \<open>
  C6, amended. For every status word handled by \<^verbatim>\<open>max77665_handle_charger_status\<close>:
  if the charger-OK or the charging-input-OK bit is unset, the recalibration work is
  scheduled once, with a delay of 100 ms (a work already pending keeps its timer), and
  nothing of the calibration runs in the handler: it writes no register and leaves the
  ceiling alone. The counter changes by at most one increment; it is unchanged when the
  battery-OK bit is set; when that bit is unset the handler's last bus transfer is the
  read of \<^verbatim>\<open>CHG_DTLS_01\<close>, and if that read succeeds the counter is incremented exactly
  when the battery detail read is the overcurrent code. So the counter does not decrease
  unless it stands at \<open>0xFFFFFFFF\<close>. What happens after a failed read of the detail
  register depends on the indeterminate content of the local \<^verbatim>\<open>val\<close> and is left open.
\<close>

theorem handle_charger_status_effects:
  "(let c' = snd (max77665_handle_charger_status p status val0 c); n = new_events c c'
    in (status AND CHG_BIT p = 0 \<or> status AND CHGIN_BIT p = 0 \<longrightarrow>
          filter (\<lambda>e. e = Schedule_delayed_work Set_max_current_work 100) n
             = [Schedule_delayed_work Set_max_current_work 100]
          \<and> set_max_current_work c'
             = (case set_max_current_work c of None \<Rightarrow> Some 100 | Some d \<Rightarrow> Some d))
     \<and> max_current_mA c' = max_current_mA c \<and> filter is_bus_write n = []
     \<and> (oc_count c' = oc_count c \<or> oc_count c' = oc_count c + 1)
     \<and> (status AND BAT_BIT p \<noteq> 0 \<longrightarrow> oc_count c' = oc_count c)
     \<and> (status AND BAT_BIT p = 0 \<longrightarrow>
          (\<exists>ret rd. last (filter is_bus n) = Bus_read MAX77665_CHG_DTLS_01 ret rd
             \<and> (0 \<le> ret \<longrightarrow> (oc_count c' = oc_count c + 1)
                              = (BAT_DTLS_MASK p (ucast rd) = BAT_DTLS_OVERCURRENT p))))
     \<and> (oc_count c \<noteq> 0xFFFFFFFF \<longrightarrow> oc_count c \<le> oc_count c'))"
proof -
  obtain h1 es where disp: "max77665_display_charger_status p status c =
      c\<lparr>hw := h1, events := events c @ es\<rparr>" and es: "list_all is_bus_read es"
    using display_shape [of p status c] by (elim exE conjE) (rule that)
  define c2 where "c2 = (if status AND CHG_BIT p = 0 \<or> status AND CHGIN_BIT p = 0
                then schedule_delayed_work Set_max_current_work 100 (c\<lparr>hw := h1, events := events c @ es\<rparr>)
                else c\<lparr>hw := h1, events := events c @ es\<rparr>)"
  obtain ret rd h3 where rd: "max77665_read_reg p MAX77665_CHG_DTLS_01 val0 c2 =
      (ret, (if 0 > ret then val0 else ucast rd),
       c2\<lparr>hw := h3, events := events c2 @ [Bus_read MAX77665_CHG_DTLS_01 ret rd]\<rparr>)"
    using read_reg_shape by metis
  have mono: "x \<le> x + 1" if "x \<noteq> 0xFFFFFFFF" for x :: u32
  proof -
    have "(- 1 :: u32) = 0xFFFFFFFF" by simp
    with that have "x \<noteq> - 1" by (simp only:) simp
    then have "\<not> x + 1 \<le> x" by (simp add: inc_less_eq_self_iff_eq)
    then show ?thesis by (simp add: linorder_not_le less_imp_le)
  qed
  have ne: "x + 1 \<noteq> x" for x :: u32 by simp
  from reads_facts [OF es] have
    f: "filter is_bus_write es = []" "filter is_bus es = es"
       "filter (\<lambda>e. e = Schedule_delayed_work Set_max_current_work 100) es = []"
    by (auto simp: filter_empty_conv)
  have result: "max77665_handle_charger_status p status val0 c =
     (if status AND BAT_BIT p = 0
      then if BAT_DTLS_MASK p (if 0 > ret then val0 else ucast rd) = BAT_DTLS_OVERCURRENT p
           then (0, store_oc_count (oc_count c + 1)
                  (c2\<lparr>hw := h3, events := events c2 @ [Bus_read MAX77665_CHG_DTLS_01 ret rd]\<rparr>))
           else (0, c2\<lparr>hw := h3, events := events c2 @ [Bus_read MAX77665_CHG_DTLS_01 ret rd]\<rparr>)
      else (0, c2))"
    using rd
    by (simp add: max77665_handle_charger_status_def Let_def disp c2_def [symmetric])
       (simp add: c2_def schedule_delayed_work_def emit_def work_pending_def set_work_def
          split: option.splits)
  show ?thesis
    unfolding Let_def result
    using f mono [of "oc_count c"] ne [of "oc_count c"]
    by (auto simp: c2_def new_events_def schedule_delayed_work_def emit_def work_pending_def
        set_work_def store_oc_count_def is_bus_def is_bus_write_def split: option.splits)
qed


theorem handle_charger_status_effects_witness:
  "(let c' = snd (max77665_handle_charger_status rf_env 0x05 0
      ((sample_charger ((\<lambda>_. 0)(MAX77665_CHG_DTLS_01 := 0x60)) CHARGER 500)\<lparr>oc_count := 7\<rparr>))
    in set_max_current_work c' = Some 100 \<and> oc_count c' = 8 \<and> max_current_mA c' = 500
       \<and> events c' =
        [Bus_read MAX77665_CHG_DTLS_00 0 0, Bus_read MAX77665_CHG_DTLS_01 0 0x60,
         Bus_read MAX77665_CHG_DTLS_02 0 0, Schedule_delayed_work Set_max_current_work 100,
         Bus_read MAX77665_CHG_DTLS_01 0 0x60, Store_oc_count 8])
   \<and> (let c' = snd (max77665_handle_charger_status rf_env 0x5D 0
      ((sample_charger ((\<lambda>_. 0)(MAX77665_CHG_DTLS_01 := 0x60)) CHARGER 500)\<lparr>oc_count := 7\<rparr>))
    in set_max_current_work c' = None \<and> oc_count c' = 7 \<and> events c' = [])"
  using handle_charger_status_effects [of rf_env 5 0
      "(sample_charger ((\<lambda>_. 0)(MAX77665_CHG_DTLS_01 := 0x60)) CHARGER 500)\<lparr>oc_count := 7\<rparr>"]
    handle_charger_status_effects [of rf_env 93 0
      "(sample_charger ((\<lambda>_. 0)(MAX77665_CHG_DTLS_01 := 0x60)) CHARGER 500)\<lparr>oc_count := 7\<rparr>"]
  by (simp add: rf_handle_count rf_handle_quiet Let_def) (simp add: sample_charger_def)


text \<open>
  C7, as stated: the handler acts only when the observed charging state is out of sync
  with the settled event, and discards a detach when charging is already off. The code
  tests \<open>!charging_is_on(val)\<close> for both events. A detach that finds charging off runs
  the whole disable path (here on a charger that is already off); a detach that finds
  charging still on is the one that is discarded.
\<close>

theorem notifier_stale_event_counterexample:
  "events (charger_extcon_handle_notifier rf_env 0 (\<lambda>_. 0) 0
       (sample_charger ((\<lambda>_. 0)(MAX77665_CHG_DTLS_01 := 8)) OFF 0)) =
     [Bus_read MAX77665_CHG_DTLS_01 0 8,
      Store_max_current_mA 0, Store_mode OFF,
      Bus_write MAX77665_CHG_CNFG_06 12 0, Bus_write MAX77665_CHG_CNFG_00 4 0,
      Bus_read MAX77665_CHG_CNFG_12 0 0, Bus_write MAX77665_CHG_CNFG_12 0 0,
      Bus_write MAX77665_CHG_CNFG_09 0 0, Bus_write MAX77665_CHG_CNFG_06 0 0,
      Cancel_delayed_work_sync Wdt_ack_work, Alarm_cancel, Update_status 0,
      Store_ac_online 0, Store_usb_online 0,
      Power_supply_changed Usb_psy, Power_supply_changed Ac_psy]
   \<and> charger_extcon_handle_notifier rf_env 0 (\<lambda>_. 0) 0 (sample_charger (\<lambda>_. 0) CHARGER 500) =
       (sample_charger (\<lambda>_. 0) CHARGER 500)\<lparr>events := [Bus_read MAX77665_CHG_DTLS_01 0 0]\<rparr>"
  by (simp add: rf_notifier_detach_off rf_notifier_detach_on)

text \<open>
  C7, amended: the handler reads \<^verbatim>\<open>CHG_DTLS_01\<close> and acts only when the read succeeds
  and charging is observed off: a detach then runs the disable path, an attach the
  enable path. When charging is observed on, or the read fails, or the event is neither
  0 nor 1, the event is discarded: nothing happens but the one register read.
\<close>

theorem notifier_acts_when_charging_off:
  "(let (ret, val, c1) = max77665_read_reg p MAX77665_CHG_DTLS_01 0 c;
        c' = charger_extcon_handle_notifier p ev edev val0 c
    in (0 > ret \<or> charging_is_on p val \<longrightarrow> c' = c1)
     \<and> (0 \<le> ret \<and> \<not> charging_is_on p val \<and> ev = 0 \<longrightarrow>
          c' = snd (max77665_disable_charger p edev c1) \<and> mode c' = OFF)
     \<and> (0 \<le> ret \<and> \<not> charging_is_on p val \<and> ev = 1 \<longrightarrow>
          c' = snd (max77665_enable_charger p edev val0 c1))
     \<and> (ev \<noteq> 0 \<and> ev \<noteq> 1 \<longrightarrow> c' = c1)
     \<and> bus_only c c1 \<and> length (new_events c c1) = 1)"
proof -
  obtain ret val c1 where r: "max77665_read_reg p MAX77665_CHG_DTLS_01 0 c = (ret, val, c1)"
    by (metis surj_pair)
  have "length (new_events c c1) = 1"
    using r by (auto simp: max77665_read_reg_def Let_def new_events_def emit_def split: prod.splits)
  with read_reg_bus [OF r] show ?thesis
    by (auto simp: r charger_extcon_handle_notifier_def disable_state)
qed

theorem notifier_acts_when_charging_off_witness:
  "mode (charger_extcon_handle_notifier rf_env 0 (\<lambda>_. 0) 0
       (sample_charger ((\<lambda>_. 0)(MAX77665_CHG_DTLS_01 := 8)) CHARGER 500)) = OFF
   \<and> charger_extcon_handle_notifier rf_env 1 ((\<lambda>_. 0)(''USB'' := 1)) 0
       (sample_charger ((\<lambda>_. 0)(MAX77665_CHG_DTLS_01 := 8)) OFF 0) =
      snd (max77665_enable_charger rf_env ((\<lambda>_. 0)(''USB'' := 1)) 0
        ((sample_charger ((\<lambda>_. 0)(MAX77665_CHG_DTLS_01 := 8)) OFF 0)
           \<lparr>events := [Bus_read MAX77665_CHG_DTLS_01 0 8]\<rparr>))
   \<and> charger_extcon_handle_notifier rf_env 1 ((\<lambda>_. 0)(''USB'' := 1)) 0
       (sample_charger (\<lambda>_. 0) CHARGER 500) =
      (sample_charger (\<lambda>_. 0) CHARGER 500)\<lparr>events := [Bus_read MAX77665_CHG_DTLS_01 0 0]\<rparr>
   \<and> charger_extcon_handle_notifier rf_env 2 (\<lambda>_. 0) 0
       (sample_charger ((\<lambda>_. 0)(MAX77665_CHG_DTLS_01 := 8)) CHARGER 500) =
      (sample_charger ((\<lambda>_. 0)(MAX77665_CHG_DTLS_01 := 8)) CHARGER 500)
         \<lparr>events := [Bus_read MAX77665_CHG_DTLS_01 0 8]\<rparr>"
proof -
  have rd: "max77665_read_reg rf_env MAX77665_CHG_DTLS_01 0 (sample_charger h m C) =
      (0, ucast (h MAX77665_CHG_DTLS_01),
       (sample_charger h m C)\<lparr>events := [Bus_read MAX77665_CHG_DTLS_01 0 (h MAX77665_CHG_DTLS_01)]\<rparr>)"
    for h m C
    by (simp add: max77665_read_reg_def Let_def emit_def rf_env_def sample_env_def rf_read_def
        sample_charger_def)
  have on: "charging_is_on rf_env v \<longleftrightarrow> v AND 0xF \<le> 3" for v
    by (simp add: rf_env_def sample_env_def)
  show ?thesis
    using notifier_acts_when_charging_off [of rf_env
            "sample_charger ((\<lambda>_. 0)(MAX77665_CHG_DTLS_01 := 8)) CHARGER 500" 0 "\<lambda>_. 0" 0]
          notifier_acts_when_charging_off [of rf_env
            "sample_charger ((\<lambda>_. 0)(MAX77665_CHG_DTLS_01 := 8)) OFF 0" 1 "(\<lambda>_. 0)(''USB'' := 1)" 0]
          notifier_acts_when_charging_off [of rf_env
            "sample_charger (\<lambda>_. 0) CHARGER 500" 1 "(\<lambda>_. 0)(''USB'' := 1)" 0]
          notifier_acts_when_charging_off [of rf_env
            "sample_charger ((\<lambda>_. 0)(MAX77665_CHG_DTLS_01 := 8)) CHARGER 500" 2 "\<lambda>_. 0" 0]
    by (simp add: rd on Let_def disable_state)
qed


text \<open>
  C8. \<^verbatim>\<open>max77665_set_charger_mode\<close> stores the requested mode before anything else: the
  first action it adds is the store to \<open>mode\<close>, everything after it is a bus transfer,
  and the mode it leaves is the requested one whatever the transport returns.
\<close>

theorem set_charger_mode_stores_mode_first:
  "mode (snd (max77665_set_charger_mode p m c)) = m
   \<and> (\<exists>es. events (snd (max77665_set_charger_mode p m c)) = events c @ Store_mode m # es
           \<and> list_all is_bus es)"
proof -
  obtain ret c' where r: "max77665_set_charger_mode p m c = (ret, c')"
    by (cases "max77665_set_charger_mode p m c")
  from set_charger_mode_bus [OF r] have "mode c' = m"
    by (simp add: bus_only_def same_struct_def store_mode_def emit_def)
  moreover from set_charger_mode_events [OF r]
  have "\<exists>es. events c' = events c @ Store_mode m # es \<and> list_all is_bus es"
    by (auto simp: is_bus_def)
  ultimately show ?thesis by (simp add: r)
qed

theorem set_charger_mode_stores_mode_first_witness:
  "max77665_set_charger_mode dead_env CHARGER (sample_charger () OFF 500) =
     (- 5, (sample_charger () CHARGER 500)\<lparr>events :=
              [Store_mode CHARGER, Bus_write MAX77665_CHG_CNFG_06 12 (- 5)]\<rparr>)
   \<and> mode (snd (max77665_set_charger_mode dead_env CHARGER (sample_charger () OFF 500))) = CHARGER"
  using set_charger_mode_stores_mode_first [of dead_env CHARGER "sample_charger () OFF 500"]
  by (simp add: dead_set_charger_mode)

text \<open>
  C9, as stated: disarming the watchdog is the first step of the disable path. In the
  code it is the third: the ceiling is cleared and the mode controller runs first. On
  the register file, from a charging state with the alarm armed, the two cancellations
  come after two stores and six bus transfers.
\<close>

theorem disable_wdt_first_counterexample:
  "events (snd (max77665_disable_charger rf_env (\<lambda>_. 0)
       ((sample_charger (\<lambda>_. 0) CHARGER 500)\<lparr>usb_online := 1, wdt_alarm := Some 40\<rparr>))) =
     [Store_max_current_mA 0, Store_mode OFF,
      Bus_write MAX77665_CHG_CNFG_06 12 0, Bus_write MAX77665_CHG_CNFG_00 4 0,
      Bus_read MAX77665_CHG_CNFG_12 0 0, Bus_write MAX77665_CHG_CNFG_12 0 0,
      Bus_write MAX77665_CHG_CNFG_09 0 0, Bus_write MAX77665_CHG_CNFG_06 0 0,
      Cancel_delayed_work_sync Wdt_ack_work, Alarm_cancel, Update_status 0,
      Store_ac_online 0, Store_usb_online 0,
      Power_supply_changed Usb_psy, Power_supply_changed Ac_psy]"
  by (rule rf_disable_events)

text \<open>
  C9, amended: on every disable path the watchdog is disarmed (the acknowledgment work
  cancelled, then the alarm) after the ceiling has been cleared and the mode controller
  has run (the store of \<open>OFF\<close> and at least the write that unlocks the registers),
  whether or not the mode change succeeded, and before the status callback is called and
  the online flags are cleared.
\<close>

theorem disable_wdt_after_mode_off:
  "\<exists>r es. events (snd (max77665_disable_charger p edev c)) =
       events c @ [Store_max_current_mA 0, Store_mode OFF, Bus_write MAX77665_CHG_CNFG_06 12 r] @ es
         @ [Cancel_delayed_work_sync Wdt_ack_work, Alarm_cancel]
         @ (if update_status p then [Update_status 0] else [])
         @ [Store_ac_online 0, Store_usb_online 0,
            Power_supply_changed Usb_psy, Power_supply_changed Ac_psy]
     \<and> list_all is_bus es"
proof -
  obtain ret c2 where m: "max77665_set_charger_mode p OFF (store_max_current_mA 0 c) = (ret, c2)"
    by (cases "max77665_set_charger_mode p OFF (store_max_current_mA 0 c)")
  from set_charger_mode_events [OF m] obtain r es where
    "events c2 = events c @ [Store_max_current_mA 0, Store_mode OFF,
                             Bus_write MAX77665_CHG_CNFG_06 12 r] @ es"
    and "list_all is_bus es"
    by (auto simp: store_max_current_mA_def emit_def)
  then show ?thesis
    by (simp add: max77665_disable_charger_def Let_def m max77665_charger_disable_wdt_def
        alarm_cancel_def cancel_delayed_work_sync_def set_work_def call_update_status_def
        store_ac_online_def store_usb_online_def power_supply_changed_def emit_def)
qed

text \<open>
  C10. \<^verbatim>\<open>max77665_set_max_input_current\<close> returns 0 for every input, whatever the
  register write returned. So none of its callers sees a transport failure through it:
  the writable \<^verbatim>\<open>CURRENT_MAX\<close> property returns 0, the calibration loop never takes
  its \<^verbatim>\<open>return ret\<close> exit, and a calibration that returns, returns 0.
\<close>

theorem set_max_input_current_never_fails:
  "fst (max77665_set_max_input_current p mA c) = 0
   \<and> fst (max77665_charger_set_property p POWER_SUPPLY_PROP_CURRENT_MAX v c) = 0
   \<and> (\<forall>y. ideal_loop p mn mx c = Some y \<longrightarrow> (\<exists>mid. fst y = Inr mid))
   \<and> (\<forall>r c'. max77665_set_ideal_input_current p c = Some (r, c') \<longrightarrow> r = 0)"
proof -
  have loop: "\<exists>mid. fst y = Inr mid" if "ideal_loop p mn mx c = Some y" for mn mx c y
    using that by (rule ideal_loop_no_early_return)
  have "r = 0" if "max77665_set_ideal_input_current p c = Some (r, c')" for r c'
    using that loop [of 100 "max_current_mA c" c]
    by (auto simp: max77665_set_ideal_input_current_def split: option.splits sum.splits)
  then show ?thesis
    using loop
    by (simp add: set_max_input_current_eq max77665_charger_set_property_def)
qed

theorem set_max_input_current_never_fails_witness:
  "fst (max77665_set_max_input_current dead_env 500 (sample_charger () CHARGER 500)) = 0
   \<and> events (snd (max77665_set_max_input_current dead_env 500 (sample_charger () CHARGER 500)))
       = [Bus_write MAX77665_CHG_CNFG_09 25 (- 5)]
   \<and> (\<exists>c'. max77665_set_ideal_input_current dead_env (sample_charger () CHARGER 500) = Some (0, c'))"
  using set_max_input_current_never_fails
          [of dead_env 500 "sample_charger () CHARGER 500" 0 100 500]
        dead_calibration_500
  by (simp add: dead_set_max emit_def) (simp add: sample_charger_def)

end
